theory Spec2Isabelle
  imports Main "HOL-Library.Sublist"
begin

section \<open>Python values, errors and text\<close>

text \<open>
  The index files hold JSON, and the code handles the loaded documents as untyped Python
  values (\<^verbatim>\<open>List[Dict]\<close>). A value is therefore modelled as the Python object that
  \<^verbatim>\<open>json.loads\<close> builds: \<^verbatim>\<open>None\<close>, a bool, an int, a str, a list or a dict. A dict is an
  association list in insertion order. Python floats are outside the model.

  Text is a \<^typ>\<open>string\<close>: a list of 8-bit characters, read as the code points 0 to 255.
  Every raise of the source is a value \<open>Inl e\<close> of a sum type.
\<close>

datatype py_error =
  AttributeError | TypeError | ValueError | IndexError | OSError | FileNotFoundError
  | JSONDecodeError | OtherError string

datatype jval =
    JNull
  | JBool bool
  | JInt int
  | JStr string
  | JList "jval list"
  | JDict "(string \<times> jval) list"

text \<open>\<^verbatim>\<open>item.get(key)\<close> and \<^verbatim>\<open>item.get(key, default)\<close>: only a dict has the method.\<close>

fun py_get_default :: "jval \<Rightarrow> string \<Rightarrow> jval \<Rightarrow> py_error + jval" where
  "py_get_default (JDict d) k dflt = Inr (case map_of d k of None \<Rightarrow> dflt | Some v \<Rightarrow> v)"
| "py_get_default _ k dflt = Inl AttributeError"

definition py_get :: "jval \<Rightarrow> string \<Rightarrow> py_error + jval" where
  "py_get item k = py_get_default item k JNull"

text \<open>\<^verbatim>\<open>len(x)\<close>: defined on str, list and dict; a TypeError otherwise.\<close>

fun py_len :: "jval \<Rightarrow> py_error + nat" where
  "py_len (JStr s) = Inr (length s)"
| "py_len (JList vs) = Inr (length vs)"
| "py_len (JDict d) = Inr (length d)"
| "py_len _ = Inl TypeError"

text \<open>Truth value testing, as \<^verbatim>\<open>if x:\<close> and \<^verbatim>\<open>not x\<close> do it.\<close>

fun py_truthy :: "jval \<Rightarrow> bool" where
  "py_truthy JNull = False"
| "py_truthy (JBool b) = b"
| "py_truthy (JInt i) = (i \<noteq> 0)"
| "py_truthy (JStr s) = (s \<noteq> [])"
| "py_truthy (JList vs) = (vs \<noteq> [])"
| "py_truthy (JDict d) = (d \<noteq> [])"

text \<open>\<^verbatim>\<open>d[k] = v\<close> on a dict: an existing key keeps its position, a new key goes last.\<close>

fun dict_set :: "(string \<times> jval) list \<Rightarrow> string \<Rightarrow> jval \<Rightarrow> (string \<times> jval) list" where
  "dict_set [] k v = [(k, v)]"
| "dict_set ((k', v') # d) k v = (if k' = k then (k, v) # d else (k', v') # dict_set d k v)"

text \<open>Decimal rendering of a number in an f-string.\<close>

fun show_nat :: "nat \<Rightarrow> string" where
  "show_nat n =
     (if n < 10 then [''0123456789'' ! n]
      else show_nat (n div 10) @ [''0123456789'' ! (n mod 10)])"

definition show_int :: "int \<Rightarrow> string" where
  "show_int i = (if i < 0 then CHR ''-'' # show_nat (nat (- i)) else show_nat (nat i))"

text \<open>The character classes of the source's regular expressions and of the JSON grammar.\<close>

definition is_digit :: "char \<Rightarrow> bool" where
  "is_digit c = (48 \<le> (of_char c :: nat) \<and> (of_char c :: nat) \<le> 57)"

definition digit_val :: "char \<Rightarrow> nat" where
  "digit_val c = of_char c - 48"

text \<open>\<^verbatim>\<open>\s\<close> of the \<^verbatim>\<open>re\<close> module on a str pattern: the Unicode whitespace below 256.\<close>

definition is_space :: "char \<Rightarrow> bool" where
  "is_space c =
     (let n = (of_char c :: nat)
      in (9 \<le> n \<and> n \<le> 13) \<or> (28 \<le> n \<and> n \<le> 32) \<or> n = 133 \<or> n = 160)"

text \<open>The whitespace the JSON decoder skips: space, tab, line feed, carriage return.\<close>

definition is_json_ws :: "char \<Rightarrow> bool" where
  "is_json_ws c = (c = CHR '' '' \<or> c = CHR 0x09 \<or> c = CHR 0x0A \<or> c = CHR 0x0D)"

fun strip_prefix :: "string \<Rightarrow> string \<Rightarrow> string option" where
  "strip_prefix [] s = Some s"
| "strip_prefix (p # ps) [] = None"
| "strip_prefix (p # ps) (c # cs) = (if p = c then strip_prefix ps cs else None)"

section \<open>The JSON codec of the standard library\<close>

text \<open>
  \<^verbatim>\<open>json.loads\<close> and \<^verbatim>\<open>json.dump(obj, f, indent=2)\<close> belong to Python's standard library,
  not to the repository; they are modelled from their documented behaviour on the values
  of \<^typ>\<open>jval\<close>. Limits of the model: a number literal with a fraction or an exponent,
  \<^verbatim>\<open>NaN\<close> and \<^verbatim>\<open>Infinity\<close> (Python floats) and a \<^verbatim>\<open>\u\<close> escape above 255 are rejected
  as if malformed, and the interpreter's limits on the digits of an int and on the depth
  of nesting are ignored.
\<close>

subsection \<open>Decoding\<close>

definition skip_ws :: "string \<Rightarrow> string" where
  "skip_ws s = dropWhile is_json_ws s"

definition hex_val :: "char \<Rightarrow> nat option" where
  "hex_val c =
     (let n = (of_char c :: nat)
      in if 48 \<le> n \<and> n \<le> 57 then Some (n - 48)
         else if 97 \<le> n \<and> n \<le> 102 then Some (n - 87)
         else if 65 \<le> n \<and> n \<le> 70 then Some (n - 55)
         else None)"

definition hex4 :: "char \<Rightarrow> char \<Rightarrow> char \<Rightarrow> char \<Rightarrow> nat option" where
  "hex4 a b c d =
     (case (hex_val a, hex_val b, hex_val c, hex_val d) of
        (Some w, Some x, Some y, Some z) \<Rightarrow> Some (((w * 16 + x) * 16 + y) * 16 + z)
      | _ \<Rightarrow> None)"

definition unescape :: "char \<Rightarrow> char option" where
  "unescape e =
     (if e = CHR 0x22 then Some (CHR 0x22)
      else if e = CHR 0x5C then Some (CHR 0x5C)
      else if e = CHR ''/'' then Some (CHR ''/'')
      else if e = CHR ''b'' then Some (CHR 0x08)
      else if e = CHR ''f'' then Some (CHR 0x0C)
      else if e = CHR ''n'' then Some (CHR 0x0A)
      else if e = CHR ''r'' then Some (CHR 0x0D)
      else if e = CHR ''t'' then Some (CHR 0x09)
      else None)"

text \<open>
  The body of a string literal, after its opening quote: the decoded text and what
  follows the closing quote. A raw control character is refused (strict mode).
\<close>

fun scan_string :: "string \<Rightarrow> (string \<times> string) option" where
  "scan_string [] = None"
| "scan_string (c # cs) =
     (if c = CHR 0x22 then Some ([], cs)
      else if c = CHR 0x5C then
        (case cs of
           [] \<Rightarrow> None
         | e # cs1 \<Rightarrow>
             if e = CHR ''u'' then
               (case cs1 of
                  h1 # h2 # h3 # h4 # cs2 \<Rightarrow>
                    (case hex4 h1 h2 h3 h4 of
                       None \<Rightarrow> None
                     | Some n \<Rightarrow>
                         if n < 256
                         then map_option (\<lambda>(s, r). (char_of n # s, r)) (scan_string cs2)
                         else None)
                | _ \<Rightarrow> None)
             else
               (case unescape e of
                  None \<Rightarrow> None
                | Some d \<Rightarrow> map_option (\<lambda>(s, r). (d # s, r)) (scan_string cs1)))
      else if (of_char c :: nat) < 32 then None
      else map_option (\<lambda>(s, r). (c # s, r)) (scan_string cs))"

definition nat_of_digits :: "string \<Rightarrow> nat" where
  "nat_of_digits ds = foldl (\<lambda>a c. 10 * a + digit_val c) 0 ds"

text \<open>What follows the integer part of a float literal: a fraction or an exponent.\<close>

fun is_float_tail :: "string \<Rightarrow> bool" where
  "is_float_tail (c # d # r) =
     ((c = CHR ''.'' \<and> is_digit d) \<or>
      ((c = CHR ''e'' \<or> c = CHR ''E'') \<and>
       (is_digit d \<or>
        ((d = CHR ''+'' \<or> d = CHR ''-'') \<and> (case r of [] \<Rightarrow> False | e # _ \<Rightarrow> is_digit e)))))"
| "is_float_tail _ = False"

definition scan_number :: "string \<Rightarrow> (jval \<times> string) option" where
  "scan_number s =
     (let neg = (case s of [] \<Rightarrow> False | c # _ \<Rightarrow> c = CHR ''-'');
          s1 = (if neg then tl s else s)
      in case s1 of
           [] \<Rightarrow> None
         | d # r \<Rightarrow>
             if \<not> is_digit d then None
             else
               let ds = (if d = CHR ''0'' then [d] else takeWhile is_digit s1);
                   rest = (if d = CHR ''0'' then r else dropWhile is_digit s1)
               in if is_float_tail rest then None
                  else Some (JInt ((if neg then - 1 else 1) * int (nat_of_digits ds)), rest))"

text \<open>\<^verbatim>\<open>dict(pairs)\<close>: a repeated key keeps its first position and takes the last value.\<close>

definition dict_of_pairs :: "(string \<times> jval) list \<Rightarrow> (string \<times> jval) list" where
  "dict_of_pairs kvs = foldl (\<lambda>d (k, v). dict_set d k v) [] kvs"

text \<open>
  The recursive descent of the decoder. The first argument bounds the depth of the
  recursion; \<open>json_loads\<close> starts it above the length of the text, which no descent reaches.
\<close>

fun parse_value :: "nat \<Rightarrow> string \<Rightarrow> (jval \<times> string) option"
  and parse_elems :: "nat \<Rightarrow> string \<Rightarrow> (jval list \<times> string) option"
  and parse_members :: "nat \<Rightarrow> string \<Rightarrow> ((string \<times> jval) list \<times> string) option"
where
  "parse_value 0 s = None"
| "parse_value (Suc k) s =
     (case s of
        [] \<Rightarrow> None
      | c # cs \<Rightarrow>
          if c = CHR 0x22 then map_option (\<lambda>(x, r). (JStr x, r)) (scan_string cs)
          else if c = CHR ''{'' then
            (case skip_ws cs of
               [] \<Rightarrow> None
             | d # r \<Rightarrow>
                 if d = CHR ''}'' then Some (JDict [], r)
                 else map_option (\<lambda>(kvs, r'). (JDict (dict_of_pairs kvs), r'))
                        (parse_members k (d # r)))
          else if c = CHR ''['' then
            (case skip_ws cs of
               [] \<Rightarrow> None
             | d # r \<Rightarrow>
                 if d = CHR '']'' then Some (JList [], r)
                 else map_option (\<lambda>(vs, r'). (JList vs, r')) (parse_elems k (d # r)))
          else
            (case strip_prefix ''null'' s of
               Some r \<Rightarrow> Some (JNull, r)
             | None \<Rightarrow>
                 (case strip_prefix ''true'' s of
                    Some r \<Rightarrow> Some (JBool True, r)
                  | None \<Rightarrow>
                      (case strip_prefix ''false'' s of
                         Some r \<Rightarrow> Some (JBool False, r)
                       | None \<Rightarrow> scan_number s))))"
| "parse_elems 0 s = None"
| "parse_elems (Suc k) s =
     (case parse_value k s of
        None \<Rightarrow> None
      | Some (v, r) \<Rightarrow>
          (case skip_ws r of
             [] \<Rightarrow> None
           | d # r' \<Rightarrow>
               if d = CHR '']'' then Some ([v], r')
               else if d = CHR '','' then
                 map_option (\<lambda>(vs, r''). (v # vs, r'')) (parse_elems k (skip_ws r'))
               else None))"
| "parse_members 0 s = None"
| "parse_members (Suc k) s =
     (case s of
        [] \<Rightarrow> None
      | q # cs \<Rightarrow>
          if q \<noteq> CHR 0x22 then None
          else
            (case scan_string cs of
               None \<Rightarrow> None
             | Some (key, r) \<Rightarrow>
                 (case skip_ws r of
                    [] \<Rightarrow> None
                  | colon # r1 \<Rightarrow>
                      if colon \<noteq> CHR '':'' then None
                      else
                        (case parse_value k (skip_ws r1) of
                           None \<Rightarrow> None
                         | Some (v, r2) \<Rightarrow>
                             (case skip_ws r2 of
                                [] \<Rightarrow> None
                              | d # r3 \<Rightarrow>
                                  if d = CHR ''}'' then Some ([(key, v)], r3)
                                  else if d = CHR '','' then
                                    map_option (\<lambda>(kvs, r4). ((key, v) # kvs, r4))
                                      (parse_members k (skip_ws r3))
                                  else None)))))"

definition json_loads :: "string \<Rightarrow> py_error + jval" where
  "json_loads s =
     (case parse_value (Suc (length s)) (skip_ws s) of
        None \<Rightarrow> Inl JSONDecodeError
      | Some (v, r) \<Rightarrow> if skip_ws r = [] then Inr v else Inl JSONDecodeError)"

subsection \<open>Encoding with \<^verbatim>\<open>indent=2\<close>\<close>

definition escape_char :: "char \<Rightarrow> string" where
  "escape_char c =
     (let n = (of_char c :: nat)
      in if c = CHR 0x22 then [CHR 0x5C, CHR 0x22]
         else if c = CHR 0x5C then [CHR 0x5C, CHR 0x5C]
         else if c = CHR 0x0A then [CHR 0x5C, CHR ''n'']
         else if c = CHR 0x0D then [CHR 0x5C, CHR ''r'']
         else if c = CHR 0x09 then [CHR 0x5C, CHR ''t'']
         else if c = CHR 0x08 then [CHR 0x5C, CHR ''b'']
         else if c = CHR 0x0C then [CHR 0x5C, CHR ''f'']
         else if 32 \<le> n \<and> n \<le> 126 then [c]
         else [CHR 0x5C, CHR ''u'', CHR ''0'', CHR ''0'',
               ''0123456789abcdef'' ! (n div 16), ''0123456789abcdef'' ! (n mod 16)])"

definition dump_str :: "string \<Rightarrow> string" where
  "dump_str s = CHR 0x22 # concat (map escape_char s) @ [CHR 0x22]"

definition newline_indent :: "nat \<Rightarrow> string" where
  "newline_indent level = CHR 0x0A # replicate (2 * level) (CHR '' '')"

function dump :: "nat \<Rightarrow> jval \<Rightarrow> string"
  and dump_items :: "nat \<Rightarrow> jval list \<Rightarrow> string"
  and dump_members :: "nat \<Rightarrow> (string \<times> jval) list \<Rightarrow> string"
where
  "dump level JNull = ''null''"
| "dump level (JBool b) = (if b then ''true'' else ''false'')"
| "dump level (JInt i) = show_int i"
| "dump level (JStr s) = dump_str s"
| "dump level (JList vs) =
     (if vs = [] then ''[]''
      else ''['' @ newline_indent (Suc level) @ dump_items (Suc level) vs
           @ newline_indent level @ '']'')"
| "dump level (JDict d) =
     (if d = [] then ''{}''
      else ''{'' @ newline_indent (Suc level) @ dump_members (Suc level) d
           @ newline_indent level @ ''}'')"
| "dump_items level [] = []"
| "dump_items level [v] = dump level v"
| "dump_items level (v # w # vs) =
     dump level v @ '','' @ newline_indent level @ dump_items level (w # vs)"
| "dump_members level [] = []"
| "dump_members level [(k, v)] = dump_str k @ '': '' @ dump level v"
| "dump_members level ((k, v) # kv # d) =
     dump_str k @ '': '' @ dump level v @ '','' @ newline_indent level
     @ dump_members level (kv # d)"
  by pat_completeness auto
termination
  by (relation "measure (\<lambda>x. case x of
          Inl (_, v) \<Rightarrow> size v
        | Inr (Inl (_, vs)) \<Rightarrow> size_list size vs
        | Inr (Inr (_, d)) \<Rightarrow> size_list (size_prod (\<lambda>_. 0) size) d)") auto

definition json_dumps :: "jval \<Rightarrow> string" where
  "json_dumps v = dump 0 v"

section \<open>The file system\<close>

text \<open>
  A path is the list of its components below the working directory (\<open>[]\<close> is the
  working directory itself). A file system maps a path to a regular file with its text or
  to a directory. The operations fail where the operating system refuses them: reading
  what is not a regular file, writing onto a directory or below a missing directory, a
  name that is too long. Permissions, quotas and symbolic links are outside the model.
\<close>

type_synonym path = "string list"

datatype node = File string | Dir

type_synonym filesystem = "path \<Rightarrow> node option"

definition path_exists :: "filesystem \<Rightarrow> path \<Rightarrow> bool" where
  "path_exists fs p = (p = [] \<or> fs p \<noteq> None)"

definition is_dir :: "filesystem \<Rightarrow> path \<Rightarrow> bool" where
  "is_dir fs p = (p = [] \<or> fs p = Some Dir)"

text \<open>
  The operating system refuses a path of more than 4095 bytes, and a component of more than
  255 bytes where it looks the component up, that is in an existing directory
  (\<^verbatim>\<open>ENAMETOOLONG\<close>). A character above 127 takes two bytes.
\<close>

definition utf8_length :: "string \<Rightarrow> nat" where
  "utf8_length name = length name + length (filter (\<lambda>c. 128 \<le> (of_char c :: nat)) name)"

definition name_too_long :: "filesystem \<Rightarrow> path \<Rightarrow> bool" where
  "name_too_long fs p =
     (4095 < sum_list (map utf8_length p) + (length p - 1)
      \<or> list_ex (\<lambda>q. q \<noteq> [] \<and> 255 < utf8_length (last q) \<and> is_dir fs (butlast q))
           (prefixes p))"

text \<open>\<^verbatim>\<open>Path.exists()\<close>: \<^verbatim>\<open>False\<close> for a path that is not there; the error of a name
  that is too long is passed on.\<close>

definition py_exists :: "filesystem \<Rightarrow> path \<Rightarrow> py_error + bool" where
  "py_exists fs p = (if name_too_long fs p then Inl OSError else Inr (path_exists fs p))"

text \<open>\<^verbatim>\<open>open(p, "r")\<close> followed by \<^verbatim>\<open>read()\<close>.\<close>

definition read_text :: "filesystem \<Rightarrow> path \<Rightarrow> py_error + string" where
  "read_text fs p =
     (if p = [] \<or> name_too_long fs p then Inl OSError
      else case fs p of Some (File c) \<Rightarrow> Inr c | _ \<Rightarrow> Inl OSError)"

text \<open>\<^verbatim>\<open>open(p, "w")\<close> followed by writing \<open>s\<close>; with \<open>s = []\<close> it is the open alone,
  which truncates.\<close>

definition write_text :: "filesystem \<Rightarrow> path \<Rightarrow> string \<Rightarrow> py_error + filesystem" where
  "write_text fs p s =
     (if name_too_long fs p \<or> is_dir fs p \<or> \<not> is_dir fs (butlast p) then Inl OSError
      else Inr (fs(p \<mapsto> File s)))"

text \<open>\<^verbatim>\<open>Path.mkdir(parents=True, exist_ok=True)\<close>: a regular file on the way is an error,
  and so is a name that is too long, since every directory on the way is there or created.\<close>

definition mkdir_parents :: "filesystem \<Rightarrow> path \<Rightarrow> py_error + filesystem" where
  "mkdir_parents fs d =
     (if list_ex (\<lambda>q. q \<noteq> [] \<and> (case fs q of Some (File _) \<Rightarrow> True | _ \<Rightarrow> False)) (prefixes d)
         \<or> list_ex (\<lambda>name. 255 < utf8_length name) d
         \<or> 4095 < sum_list (map utf8_length d) + (length d - 1)
      then Inl OSError
      else Inr (\<lambda>q. if q \<noteq> [] \<and> prefix q d \<and> fs q = None then Some Dir else fs q))"

text \<open>\<^verbatim>\<open>Path.suffix\<close> of a file name, and \<^verbatim>\<open>Path.with_suffix\<close>.\<close>

definition py_suffix :: "string \<Rightarrow> string" where
  "py_suffix name =
     (let after = rev (takeWhile (\<lambda>c. c \<noteq> CHR ''.'') (rev name))
      in if after \<noteq> [] \<and> length after < length name - 1 then CHR ''.'' # after else [])"

definition with_suffix :: "path \<Rightarrow> string \<Rightarrow> py_error + path" where
  "with_suffix p sfx =
     (if p = [] \<or> last p = [] then Inl ValueError
      else Inr (butlast p @
                [take (length (last p) - length (py_suffix (last p))) (last p) @ sfx]))"

text \<open>
  \<^verbatim>\<open>shutil.copy2(src, dst)\<close>: a directory as destination receives the file under its
  own name; the destination is opened for writing (truncated) and then filled. The result
  lists the two states the file system passes through.
\<close>

definition copy2 :: "filesystem \<Rightarrow> path \<Rightarrow> path \<Rightarrow> py_error + filesystem list" where
  "copy2 fs src dst =
     (let dst' = (if is_dir fs dst \<and> src \<noteq> [] then dst @ [last src] else dst)
      in if src = dst' then Inl OSError
         else case read_text fs src of
                Inl e \<Rightarrow> Inl e
              | Inr c \<Rightarrow>
                  (case write_text fs dst' [] of
                     Inl e \<Rightarrow> Inl e
                   | Inr fs' \<Rightarrow> Inr [fs', fs'(dst' \<mapsto> File c)]))"

text \<open>\<^verbatim>\<open>os.replace(src, dst)\<close> of a regular file: one step, the rename.\<close>

definition os_replace :: "filesystem \<Rightarrow> path \<Rightarrow> path \<Rightarrow> py_error + filesystem" where
  "os_replace fs src dst =
     (case (if src = [] then None else fs src) of
        Some (File c) \<Rightarrow>
          if name_too_long fs dst \<or> is_dir fs dst \<or> \<not> is_dir fs (butlast dst) then Inl OSError
          else Inr ((fs(src := None))(dst \<mapsto> File c))
      | _ \<Rightarrow> Inl OSError)"

section \<open>The index store\<close>

subsection \<open>Loading\<close>

text \<open>
  \<^verbatim>\<open>re.sub(r",\s*}", "}", text)\<close> and \<^verbatim>\<open>re.sub(r",\s*]", "]", text)\<close>, for the closing
  character \<open>b\<close>: every leftmost match of a comma, whitespace and \<open>b\<close> becomes \<open>b\<close>.
\<close>

function sub_trailing :: "char \<Rightarrow> string \<Rightarrow> string" where
  "sub_trailing b [] = []"
| "sub_trailing b (c # cs) =
     (if c = CHR '','' \<and> (case dropWhile is_space cs of [] \<Rightarrow> False | d # _ \<Rightarrow> d = b)
      then b # sub_trailing b (tl (dropWhile is_space cs))
      else c # sub_trailing b cs)"
  by pat_completeness auto
termination
  by (relation "measure (\<lambda>(b, s). length s)")
     (auto simp: less_Suc_eq_le intro: order_trans [OF diff_le_self length_dropWhile_le])

definition sanitize :: "string \<Rightarrow> string" where
  "sanitize archive_content = sub_trailing (CHR '']'') (sub_trailing (CHR ''}'') archive_content)"

text \<open>The shape checks both loaders make on the decoded document, for the key \<open>k\<close>.\<close>

definition records_of :: "string \<Rightarrow> jval \<Rightarrow> jval list" where
  "records_of k data =
     (case data of
        JDict d \<Rightarrow>
          (case map_of d k of
             None \<Rightarrow> []
           | Some (JList items) \<Rightarrow> items
           | Some _ \<Rightarrow> [])
      | _ \<Rightarrow> [])"

text \<open>
  \<^verbatim>\<open>load_arweave_index\<close>: the body of its \<^verbatim>\<open>try\<close>, then the function with the
  \<^verbatim>\<open>except Exception\<close> that turns every error into the empty list.
\<close>

definition load_arweave_index_try :: "filesystem \<Rightarrow> path \<Rightarrow> py_error + jval list" where
  "load_arweave_index_try fs index_file =
     (case py_exists fs index_file of
        Inl e \<Rightarrow> Inl e
      | Inr there \<Rightarrow>
          if \<not> there then Inr []
          else case read_text fs index_file of
                 Inl e \<Rightarrow> Inl e
               | Inr archive_content \<Rightarrow>
                   (case json_loads (sanitize archive_content) of
                      Inl e \<Rightarrow> Inl e
                    | Inr data \<Rightarrow> Inr (records_of ''files'' data)))"

definition load_arweave_index :: "filesystem \<Rightarrow> path \<Rightarrow> py_error + jval list" where
  "load_arweave_index fs index_file =
     (case load_arweave_index_try fs index_file of Inl e \<Rightarrow> Inr [] | Inr r \<Rightarrow> Inr r)"

text \<open>\<^verbatim>\<open>load_atproto_posts_index\<close>: the existence test stands before the \<^verbatim>\<open>try\<close>, so
  its error reaches the caller, and the text is decoded as it is.\<close>

definition load_atproto_posts_index_try :: "filesystem \<Rightarrow> path \<Rightarrow> py_error + jval list" where
  "load_atproto_posts_index_try fs index_file =
     (case read_text fs index_file of
        Inl e \<Rightarrow> Inl e
      | Inr content \<Rightarrow>
          (case json_loads content of
             Inl e \<Rightarrow> Inl e
           | Inr data \<Rightarrow> Inr (records_of ''posts'' data)))"

definition load_atproto_posts_index :: "filesystem \<Rightarrow> path \<Rightarrow> py_error + jval list" where
  "load_atproto_posts_index fs index_file =
     (case py_exists fs index_file of
        Inl e \<Rightarrow> Inl e
      | Inr there \<Rightarrow>
          if \<not> there then Inr []
          else case load_atproto_posts_index_try fs index_file of
                 Inl e \<Rightarrow> Inr []
               | Inr r \<Rightarrow> Inr r)"

subsection \<open>Saving\<close>

text \<open>
  A save returns its boolean result together with the states the file system passes
  through, from the state before the call to the state after it: what a reader of the
  file system can observe while the save runs. Opening a file for writing truncates it,
  which is a state of its own; the rename of \<^verbatim>\<open>os.replace\<close> is a single step.

  The \<^verbatim>\<open>try\<close> block of \<^verbatim>\<open>save_arweave_index\<close>: the error raised (if any) and the states
  passed.
\<close>

definition save_arweave_index_try ::
  "jval list \<Rightarrow> path \<Rightarrow> filesystem \<Rightarrow> py_error option \<times> filesystem list" where
  "save_arweave_index_try index_data index_file fs =
     (case with_suffix index_file ''.tmp'' of
        Inl e \<Rightarrow> (Some e, [])
      | Inr temp_file \<Rightarrow>
          (case write_text fs temp_file [] of
             Inl e \<Rightarrow> (Some e, [])
           | Inr fs_open \<Rightarrow>
               let fs_full = fs_open(temp_file \<mapsto>
                               File (json_dumps (JDict [(''files'', JList index_data)])))
               in (case os_replace fs_full temp_file index_file of
                     Inl e \<Rightarrow> (Some e, [fs_open, fs_full])
                   | Inr fs_done \<Rightarrow> (None, [fs_open, fs_full, fs_done]))))"

text \<open>
  \<^verbatim>\<open>save_arweave_index\<close>. Creating the parent directory, naming the backup and the
  existence test of the destination stand before the \<^verbatim>\<open>try\<close>, and the existence test
  of the backup stands in the handler, so their errors reach the caller. A failed backup
  or restore is only logged.
\<close>

definition save_arweave_index ::
  "jval list \<Rightarrow> path \<Rightarrow> filesystem \<Rightarrow> py_error + (bool \<times> filesystem list)" where
  "save_arweave_index index_data index_file fs =
     (case mkdir_parents fs (butlast index_file) of
        Inl e \<Rightarrow> Inl e
      | Inr fs1 \<Rightarrow>
          (case with_suffix index_file ''.json.bak'' of
             Inl e \<Rightarrow> Inl e
           | Inr backup_file \<Rightarrow>
               (case py_exists fs1 index_file of
                  Inl e \<Rightarrow> Inl e
                | Inr there \<Rightarrow>
                    let backup = (if there
                                  then (case copy2 fs1 index_file backup_file of
                                          Inl e \<Rightarrow> []
                                        | Inr sts \<Rightarrow> sts)
                                  else []);
                        fs2 = last (fs1 # backup)
                    in (case save_arweave_index_try index_data index_file fs2 of
                          (None, sts) \<Rightarrow> Inr (True, fs # fs1 # backup @ sts)
                        | (Some e, sts) \<Rightarrow>
                            let fs3 = last (fs2 # sts)
                            in (case py_exists fs3 backup_file of
                                  Inl e' \<Rightarrow> Inl e'
                                | Inr backup_there \<Rightarrow>
                                    let restore = (if backup_there
                                                   then (case copy2 fs3 backup_file index_file of
                                                           Inl e' \<Rightarrow> []
                                                         | Inr sts' \<Rightarrow> sts')
                                                   else [])
                                    in Inr (False, fs # fs1 # backup @ sts @ restore))))))"

text \<open>\<^verbatim>\<open>save_atproto_posts_index\<close>: everything inside one \<^verbatim>\<open>try\<close>, the destination opened
  for writing directly.\<close>

definition save_atproto_posts_index ::
  "jval list \<Rightarrow> path \<Rightarrow> filesystem \<Rightarrow> py_error + (bool \<times> filesystem list)" where
  "save_atproto_posts_index posts_data index_file fs =
     (case mkdir_parents fs (butlast index_file) of
        Inl e \<Rightarrow> Inr (False, [fs])
      | Inr fs1 \<Rightarrow>
          (case write_text fs1 index_file [] of
             Inl e \<Rightarrow> Inr (False, [fs, fs1])
           | Inr fs_open \<Rightarrow>
               Inr (True, [fs, fs1, fs_open,
                           fs_open(index_file \<mapsto>
                             File (json_dumps (JDict [(''posts'', JList posts_data)])))])))"

subsection \<open>Vocabulary for the statements about saving\<close>

text \<open>What a reader finds at the paths \<open>ps\<close> in each state a save passes through.\<close>

definition observe_save ::
  "path list \<Rightarrow> py_error + (bool \<times> filesystem list) \<Rightarrow> py_error + (bool \<times> node option list list)" where
  "observe_save ps r =
     (case r of
        Inl e \<Rightarrow> Inl e
      | Inr (ok, states) \<Rightarrow> Inr (ok, map (\<lambda>s. map s ps) states))"

text \<open>A save followed by a load from the state the save leaves.\<close>

definition save_then_load_arweave ::
  "jval list \<Rightarrow> path \<Rightarrow> filesystem \<Rightarrow> py_error + (bool \<times> (py_error + jval list))" where
  "save_then_load_arweave index_data index_file fs =
     (case save_arweave_index index_data index_file fs of
        Inl e \<Rightarrow> Inl e
      | Inr (ok, states) \<Rightarrow> Inr (ok, load_arweave_index (last states) index_file))"

definition save_then_load_atproto ::
  "jval list \<Rightarrow> path \<Rightarrow> filesystem \<Rightarrow> py_error + (bool \<times> (py_error + jval list))" where
  "save_then_load_atproto posts_data index_file fs =
     (case save_atproto_posts_index posts_data index_file fs of
        Inl e \<Rightarrow> Inl e
      | Inr (ok, states) \<Rightarrow> Inr (ok, load_atproto_posts_index (last states) index_file))"

section \<open>The status resolvers\<close>

text \<open>
  The identifier is \<open>None\<close> for Python's \<^verbatim>\<open>None\<close>; the snapshot is \<open>None\<close> when the caller
  passes no \<^verbatim>\<open>index_data\<close>, and the index is then loaded from the file.
\<close>

fun arweave_status_scan :: "string \<Rightarrow> jval list \<Rightarrow> py_error + string" where
  "arweave_status_scan uuid_value [] = Inr ''Not uploaded''"
| "arweave_status_scan uuid_value (item # rest) =
     (case py_get item ''uuid'' of
        Inl e \<Rightarrow> Inl e
      | Inr u \<Rightarrow>
          if u = JStr uuid_value then
            (case py_get_default item ''arweave_hashes'' (JList []) of
               Inl e \<Rightarrow> Inl e
             | Inr hashes \<Rightarrow>
                 (case py_len hashes of
                    Inl e \<Rightarrow> Inl e
                  | Inr hash_count \<Rightarrow>
                      if hash_count > 0 then
                        Inr (''Uploaded ('' @ show_nat hash_count @ '' version''
                             @ (if hash_count = 1 then [] else ''s'') @ '')'')
                      else Inr ''Tracked in archive, but no uploads recorded''))
          else arweave_status_scan uuid_value rest)"

definition get_arweave_status ::
  "filesystem \<Rightarrow> string option \<Rightarrow> jval list option \<Rightarrow> path \<Rightarrow> py_error + string" where
  "get_arweave_status fs uuid_value index_data index_file =
     (case uuid_value of
        None \<Rightarrow> Inr ''No UUID found''
      | Some u \<Rightarrow>
          if u = ''N/A'' \<or> u = [] then Inr ''No UUID found''
          else
            (case (case index_data of None \<Rightarrow> load_arweave_index fs index_file | Some d \<Rightarrow> Inr d) of
               Inl e \<Rightarrow> Inl e
             | Inr index_data' \<Rightarrow>
                 if index_data' = [] then Inr ''Not uploaded (archive not found or empty)''
                 else arweave_status_scan u index_data'))"

fun atproto_status_scan :: "string \<Rightarrow> jval list \<Rightarrow> py_error + string" where
  "atproto_status_scan uuid_value [] = Inr ''Not posted''"
| "atproto_status_scan uuid_value (post # rest) =
     (case py_get post ''uuid'' of
        Inl e \<Rightarrow> Inl e
      | Inr u \<Rightarrow>
          if u = JStr uuid_value then
            (case py_get post ''url'' of
               Inl e \<Rightarrow> Inl e
             | Inr url \<Rightarrow> Inr (if py_truthy url then ''Posted'' else ''Draft''))
          else atproto_status_scan uuid_value rest)"

definition get_atproto_status ::
  "filesystem \<Rightarrow> string option \<Rightarrow> jval list option \<Rightarrow> py_error + string" where
  "get_atproto_status fs uuid_value index_data =
     (case uuid_value of
        None \<Rightarrow> Inr ''No UUID found''
      | Some u \<Rightarrow>
          if u = ''N/A'' \<or> u = [] then Inr ''No UUID found''
          else
            (case (case index_data of
                     None \<Rightarrow> load_atproto_posts_index fs [''data'', ''atproto_posts.json'']
                   | Some d \<Rightarrow> Inr d) of
               Inl e \<Rightarrow> Inl e
             | Inr index_data' \<Rightarrow>
                 if index_data' = [] then Inr ''Not posted (index not found or empty)''
                 else atproto_status_scan u index_data'))"

text \<open>Vocabulary for the statements about records: a record is a dict, found by the
  equality test of the source on its \<open>uuid\<close>; the text of the uploaded status.\<close>

fun is_dict :: "jval \<Rightarrow> bool" where
  "is_dict (JDict d) = True"
| "is_dict _ = False"

definition has_uuid :: "string \<Rightarrow> jval \<Rightarrow> bool" where
  "has_uuid u item = (py_get item ''uuid'' = Inr (JStr u))"

definition uploaded_text :: "nat \<Rightarrow> string" where
  "uploaded_text n = ''Uploaded ('' @ show_nat n @ '' version'' @ (if n = 1 then [] else ''s'') @ '')''"

section \<open>The selection tracker\<close>

text \<open>
  \<^verbatim>\<open>ContentTree\<close> of \<^verbatim>\<open>jasper.py\<close>. A tree node carries its label, its data (a path,
  or \<^verbatim>\<open>None\<close> on an error leaf) and its children. The two marks the code puts before
  a name lie outside the 8-bit characters, so a label is modelled by its mark and its
  name: \<open>Hollow n\<close> for the unchecked circle and \<open>Filled n\<close> for the checked one.
  \<^verbatim>\<open>Path.is_dir()\<close> asks the file system. The queue \<^verbatim>\<open>queued_files\<close> is a set of paths.
\<close>

datatype node_label = Label string | Hollow string | Filled string

datatype tree_node =
  TreeNode (node_label: node_label) (node_data: "path option") (node_children: "tree_node list")

definition path_name :: "path \<Rightarrow> string" where
  "path_name p = (if p = [] then [] else last p)"

text \<open>\<^verbatim>\<open>_find_child_file_nodes\<close>: the file nodes below a node, in tree order.\<close>

fun find_child_file_nodes :: "filesystem \<Rightarrow> tree_node \<Rightarrow> tree_node list" where
  "find_child_file_nodes fs (TreeNode l d cs) =
     concat (map (\<lambda>child.
        case node_data child of
          None \<Rightarrow> []
        | Some p \<Rightarrow> if \<not> is_dir fs p then [child] else find_child_file_nodes fs child) cs)"

text \<open>The loop that assigns \<^verbatim>\<open>file_node.label\<close> on every node found, as an update
  of the tree.\<close>

fun relabel_file_nodes :: "filesystem \<Rightarrow> (string \<Rightarrow> node_label) \<Rightarrow> tree_node \<Rightarrow> tree_node" where
  "relabel_file_nodes fs mark (TreeNode l d cs) =
     TreeNode l d (map (\<lambda>child.
        case node_data child of
          None \<Rightarrow> child
        | Some p \<Rightarrow>
            if \<not> is_dir fs p then TreeNode (mark (path_name p)) (node_data child) (node_children child)
            else relabel_file_nodes fs mark child) cs)"

definition child_file_paths :: "filesystem \<Rightarrow> tree_node \<Rightarrow> path list" where
  "child_file_paths fs node = List.map_filter node_data (find_child_file_nodes fs node)"

text \<open>
  \<^verbatim>\<open>toggle_directory_selection\<close>: the result is the exception raised (if any), the queue
  and the node after the call. The queue is updated before \<^verbatim>\<open>path.name\<close> is read, so a
  node without data raises with the queue already changed.
\<close>

definition toggle_directory_selection ::
  "filesystem \<Rightarrow> path set \<Rightarrow> tree_node \<Rightarrow> py_error option \<times> path set \<times> tree_node" where
  "toggle_directory_selection fs queued_files node =
     (if find_child_file_nodes fs node = [] then (None, queued_files, node)
      else
        let paths = child_file_paths fs node;
            all_selected = list_all (\<lambda>p. p \<in> queued_files) paths;
            queued_files' = (if all_selected then queued_files - set paths
                             else queued_files \<union> set paths);
            mark = (if all_selected then Hollow else Filled)
        in case node_data node of
             None \<Rightarrow> (Some AttributeError, queued_files', node)
           | Some path \<Rightarrow>
               (None, queued_files',
                relabel_file_nodes fs mark
                  (TreeNode (mark (path_name path)) (node_data node) (node_children node))))"

text \<open>Two calls in succession on the same node.\<close>

definition toggle_directory_twice ::
  "filesystem \<Rightarrow> path set \<Rightarrow> tree_node \<Rightarrow> py_error option \<times> path set \<times> tree_node" where
  "toggle_directory_twice fs queued_files node =
     (case toggle_directory_selection fs queued_files node of
        (e, queued_files', node') \<Rightarrow> toggle_directory_selection fs queued_files' node')"

section \<open>Recording a publish result: find-or-append\<close>

text \<open>
  The index update inside \<^verbatim>\<open>upload_files_to_arweave\<close> (the loop over \<^verbatim>\<open>index_data\<close> with
  \<^verbatim>\<open>found_entry\<close>, and the append after it). The list and its dicts are mutated in place;
  the model returns the list after the update. \<^verbatim>\<open>item.get\<close> on an item that is not a
  dict raises before anything is changed.
\<close>

definition arweave_hash_entry :: "string \<Rightarrow> string \<Rightarrow> jval" where
  "arweave_hash_entry tx_id timestamp =
     JDict [(''hash'', JStr tx_id), (''timestamp'', JStr timestamp),
            (''link'', JStr (''https://www.arweave.net/'' @ tx_id))]"

fun arweave_find_or_append ::
  "string \<Rightarrow> string \<Rightarrow> jval \<Rightarrow> jval list \<Rightarrow> py_error + jval list" where
  "arweave_find_or_append file_uuid title entry [] =
     Inr [JDict [(''uuid'', JStr file_uuid), (''title'', JStr title),
                 (''arweave_hashes'', JList [entry])]]"
| "arweave_find_or_append file_uuid title entry (item # rest) =
     (case py_get item ''uuid'' of
        Inl e \<Rightarrow> Inl e
      | Inr u \<Rightarrow>
          if u = JStr file_uuid then
            (case item of
               JDict d \<Rightarrow>
                 let d1 = (case map_of d ''arweave_hashes'' of
                             Some (JList h) \<Rightarrow> d
                           | _ \<Rightarrow> dict_set d ''arweave_hashes'' (JList []));
                     hashes = (case map_of d1 ''arweave_hashes'' of
                                 Some (JList h) \<Rightarrow> h
                               | _ \<Rightarrow> []);
                     d2 = dict_set d1 ''arweave_hashes'' (JList (hashes @ [entry]));
                     d3 = dict_set d2 ''title'' (JStr title)
                 in Inr (JDict d3 # rest)
             | _ \<Rightarrow> Inl AttributeError)
          else
            (case arweave_find_or_append file_uuid title entry rest of
               Inl e \<Rightarrow> Inl e
             | Inr rest' \<Rightarrow> Inr (item # rest')))"

text \<open>The same update inside \<^verbatim>\<open>post_files_to_atproto\<close>: a single slot per record.\<close>

fun atproto_find_or_append ::
  "string \<Rightarrow> string \<Rightarrow> string \<Rightarrow> string \<Rightarrow> jval list \<Rightarrow> py_error + jval list" where
  "atproto_find_or_append file_uuid title post_url timestamp [] =
     Inr [JDict [(''uuid'', JStr file_uuid), (''title'', JStr title),
                 (''url'', JStr post_url), (''posted_at'', JStr timestamp)]]"
| "atproto_find_or_append file_uuid title post_url timestamp (item # rest) =
     (case py_get item ''uuid'' of
        Inl e \<Rightarrow> Inl e
      | Inr u \<Rightarrow>
          if u = JStr file_uuid then
            (case item of
               JDict d \<Rightarrow>
                 let d1 = dict_set d ''url'' (JStr post_url);
                     d2 = dict_set d1 ''title'' (JStr title);
                     d3 = dict_set d2 ''posted_at'' (JStr timestamp)
                 in Inr (JDict d3 # rest)
             | _ \<Rightarrow> Inl AttributeError)
          else
            (case atproto_find_or_append file_uuid title post_url timestamp rest of
               Inl e \<Rightarrow> Inl e
             | Inr rest' \<Rightarrow> Inr (item # rest')))"

text \<open>The identifiers an index holds: the string values of \<open>uuid\<close>, in order.\<close>

definition identifiers :: "jval list \<Rightarrow> string list" where
  "identifiers index_data =
     List.map_filter
       (\<lambda>item. case py_get item ''uuid'' of Inr (JStr s) \<Rightarrow> Some s | _ \<Rightarrow> None) index_data"

section \<open>The outside world\<close>

text \<open>
  The orchestrators read the environment, run command-line tools, read the clock and tell
  the user interface what happens. All of it is explicit: an \<open>env\<close> holds what the code
  cannot change (the environment variables, the home directory, the two
  \<^verbatim>\<open>TEST_MODE\<close> flags, how the operating system answers a command line given the
  commands run before it, the clock, the random source and the front matter parser of
  the \<^verbatim>\<open>frontmatter\<close> library), and a \<open>world\<close> holds what it changes (the file system,
  the commands run, the notifications sent, the clock readings taken). Logging is not
  modelled, except for the error log of the balance probe. The parser gives the metadata
  of a note as the texts that \<^verbatim>\<open>str\<close> makes of its values, which is all the
  orchestrators read of them.

  Running a command either fails to start because the executable is missing
  (\<^verbatim>\<open>FileNotFoundError\<close>), raises something else (a failed decoding of the output
  included), or exits with a return code and the decoded output. An error carries the
  text of \<^verbatim>\<open>str(e)\<close>.
\<close>

datatype proc_outcome =
    ExecNotFound string
  | ExecError string
  | Exited int string string

record env =
  environ :: "string \<rightharpoonup> string"
  home_dir :: path
  arweave_test_mode :: bool
  atproto_test_mode :: bool
  run_process :: "string list list \<Rightarrow> string list \<Rightarrow> proc_outcome"
  now_isoformat :: "nat \<Rightarrow> string"
  random_choices :: "nat \<Rightarrow> nat \<Rightarrow> nat"
  frontmatter_load :: "string \<Rightarrow> py_error + (string \<rightharpoonup> string)"

record world =
  w_fs :: filesystem
  w_calls :: "string list list"
  w_notes :: "string list"
  w_ticks :: nat

text \<open>\<^verbatim>\<open>if app_notify_callback: app_notify_callback(msg)\<close>.\<close>

definition notify :: "bool \<Rightarrow> string \<Rightarrow> world \<Rightarrow> world" where
  "notify has_callback msg w = (if has_callback then w\<lparr>w_notes := w_notes w @ [msg]\<rparr> else w)"

text \<open>Starting a process and waiting for it: the command is recorded.\<close>

definition run_cmd :: "env \<Rightarrow> string list \<Rightarrow> world \<Rightarrow> proc_outcome \<times> world" where
  "run_cmd e cmd w = (run_process e (w_calls w) cmd, w\<lparr>w_calls := w_calls w @ [cmd]\<rparr>)"

text \<open>
  \<^verbatim>\<open>str(path)\<close> and \<^verbatim>\<open>Path(text)\<close>. The working directory stands for the root as
  well: empty and \<open>.\<close> components are dropped.
\<close>

fun join_with :: "string \<Rightarrow> string list \<Rightarrow> string" where
  "join_with sep [] = []"
| "join_with sep [x] = x"
| "join_with sep (x # y # xs) = x @ sep @ join_with sep (y # xs)"

definition path_str :: "path \<Rightarrow> string" where
  "path_str p = (if p = [] then ''.'' else join_with ''/'' p)"

fun split_on :: "char \<Rightarrow> string \<Rightarrow> string list" where
  "split_on sep [] = [[]]"
| "split_on sep (c # cs) =
     (if c = sep then [] # split_on sep cs
      else (case split_on sep cs of
              [] \<Rightarrow> [[c]]
            | part # parts \<Rightarrow> (c # part) # parts))"

definition path_of_str :: "string \<Rightarrow> path" where
  "path_of_str s = filter (\<lambda>part. part \<noteq> [] \<and> part \<noteq> ''.'') (split_on (CHR ''/'') s)"

text \<open>\<^verbatim>\<open>str.strip()\<close>, as used on the output of the balance command.\<close>

definition py_strip :: "string \<Rightarrow> string" where
  "py_strip s = rev (dropWhile is_space (rev (dropWhile is_space s)))"

text \<open>The character classes \<^verbatim>\<open>[a-zA-Z0-9_-]\<close> and \<^verbatim>\<open>\w\<close> (below 256).\<close>

definition is_ascii_alnum :: "char \<Rightarrow> bool" where
  "is_ascii_alnum c =
     (let n = (of_char c :: nat)
      in (48 \<le> n \<and> n \<le> 57) \<or> (65 \<le> n \<and> n \<le> 90) \<or> (97 \<le> n \<and> n \<le> 122))"

definition is_txid_char :: "char \<Rightarrow> bool" where
  "is_txid_char c = (is_ascii_alnum c \<or> c = CHR ''_'' \<or> c = CHR ''-'')"

definition is_word_char :: "char \<Rightarrow> bool" where
  "is_word_char c =
     (let n = (of_char c :: nat)
      in is_ascii_alnum c \<or> c = CHR ''_'' \<or> n = 170 \<or> n = 178 \<or> n = 179 \<or> n = 181
         \<or> n = 185 \<or> n = 186 \<or> (188 \<le> n \<and> n \<le> 190) \<or> (192 \<le> n \<and> n \<le> 214)
         \<or> (216 \<le> n \<and> n \<le> 246) \<or> 248 \<le> n)"

text \<open>\<^verbatim>\<open>re.search\<close> of a pattern that starts with a literal: the first position where
  the matcher \<open>m\<close> succeeds on the rest of the text.\<close>

fun search_from :: "(string \<Rightarrow> 'a option) \<Rightarrow> string \<Rightarrow> 'a option" where
  "search_from m [] = m []"
| "search_from m (c # cs) =
     (case m (c # cs) of Some r \<Rightarrow> Some r | None \<Rightarrow> search_from m cs)"

text \<open>A result dict from paths to an optional text, in insertion order.\<close>

fun results_set ::
  "(path \<times> string option) list \<Rightarrow> path \<Rightarrow> string option \<Rightarrow> (path \<times> string option) list" where
  "results_set [] k v = [(k, v)]"
| "results_set ((k', v') # d) k v =
     (if k' = k then (k, v) # d else (k', v') # results_set d k v)"

definition all_failed :: "path list \<Rightarrow> (path \<times> string option) list" where
  "all_failed files = foldl (\<lambda>d file_path. results_set d file_path None) [] files"

text \<open>The number of truthy values of a result dict.\<close>

definition count_succeeded :: "(path \<times> string option) list \<Rightarrow> nat" where
  "count_succeeded results =
     length (filter (\<lambda>(k, v). case v of None \<Rightarrow> False | Some x \<Rightarrow> x \<noteq> []) results)"

text \<open>The metadata of a note: \<^verbatim>\<open>str(post.get(key, default))\<close>.\<close>

definition meta_get :: "(string \<rightharpoonup> string) \<Rightarrow> string \<Rightarrow> string \<Rightarrow> string" where
  "meta_get post k dflt = (case post k of None \<Rightarrow> dflt | Some v \<Rightarrow> v)"

section \<open>The content-addressed network\<close>

subsection \<open>Wallet and balance\<close>

text \<open>\<^verbatim>\<open>_find_wallet_path\<close>: the environment variable first, then the default
  locations; the first that exists wins. The existence tests stand in no \<^verbatim>\<open>try\<close>, so
  their errors reach the caller. The working directory is the root of the model's file
  system.\<close>

fun first_existing :: "filesystem \<Rightarrow> path list \<Rightarrow> py_error + string option" where
  "first_existing fs [] = Inr None"
| "first_existing fs (abs_path # rest) =
     (case py_exists fs abs_path of
        Inl err \<Rightarrow> Inl err
      | Inr there \<Rightarrow>
          if there then Inr (Some (CHR ''/'' # path_str abs_path))
          else first_existing fs rest)"

definition find_wallet_path :: "env \<Rightarrow> filesystem \<Rightarrow> py_error + string option" where
  "find_wallet_path e fs =
     (let default_paths = [[''.wallet.json''], [''jasper'', ''.wallet.json''],
                           home_dir e @ [''.config'', ''arkb'', ''wallet.json'']]
      in case environ e ''ARWEAVE_WALLET_PATH'' of
           None \<Rightarrow> first_existing fs default_paths
         | Some wallet_path \<Rightarrow>
             if wallet_path = [] then first_existing fs default_paths
             else (case py_exists fs (path_of_str wallet_path) of
                     Inl err \<Rightarrow> Inl err
                   | Inr there \<Rightarrow>
                       if there then Inr (Some wallet_path)
                       else first_existing fs default_paths))"

text \<open>
  A Python float is not interpreted: it is modelled by the decimal numeral that denotes
  it, the integer digits and the fraction digits. \<open>PyFloat ''0'' ''0''\<close> is the literal
  \<^verbatim>\<open>0.0\<close> of the source.
\<close>

datatype py_float = PyFloat string string

text \<open>\<^verbatim>\<open>AR\s+(\d+\.\d+)\<close> at the start of a text: the digits of the group.\<close>

definition match_balance :: "string \<Rightarrow> (string \<times> string) option" where
  "match_balance s =
     (case strip_prefix ''AR'' s of
        None \<Rightarrow> None
      | Some r \<Rightarrow>
          let r1 = dropWhile is_space r;
              int_digits = takeWhile is_digit r1;
              r2 = dropWhile is_digit r1
          in if takeWhile is_space r = [] \<or> int_digits = [] then None
             else (case r2 of
                     [] \<Rightarrow> None
                   | dot # r3 \<Rightarrow>
                       if dot \<noteq> CHR ''.'' \<or> takeWhile is_digit r3 = [] then None
                       else Some (int_digits, takeWhile is_digit r3)))"

text \<open>
  \<^verbatim>\<open>get_wallet_balance\<close>: the \<^verbatim>\<open>try\<close> block, then the function with its two handlers.
  The result is the balance and the messages given to \<^verbatim>\<open>logger.error\<close>. The search for
  the wallet stands before the \<^verbatim>\<open>try\<close>.
\<close>

definition get_wallet_balance_try ::
  "env \<Rightarrow> string \<Rightarrow> world \<Rightarrow> (py_error + py_float \<times> string list) \<times> world" where
  "get_wallet_balance_try e wallet_path w =
     (case run_cmd e [''arkb'', ''balance'', ''--wallet'', wallet_path] w of
        (ExecNotFound msg, w') \<Rightarrow> (Inl FileNotFoundError, w')
      | (ExecError msg, w') \<Rightarrow> (Inl (OtherError msg), w')
      | (Exited returncode out err, w') \<Rightarrow>
          if returncode \<noteq> 0 then
            (Inr (PyFloat ''0'' ''0'',
                  [[CHR 0x27] @ ''arkb balance'' @ [CHR 0x27] @ '' failed (code ''
                   @ show_int returncode @ ''): '' @ py_strip err]), w')
          else
            (case search_from match_balance (py_strip out) of
               Some (int_digits, frac_digits) \<Rightarrow> (Inr (PyFloat int_digits frac_digits, []), w')
             | None \<Rightarrow>
                 (Inr (PyFloat ''0'' ''0'',
                       [''Could not parse balance from '' @ [CHR 0x27] @ ''arkb balance''
                        @ [CHR 0x27] @ '' output: '' @ py_strip out]), w')))"

definition get_wallet_balance ::
  "env \<Rightarrow> string option \<Rightarrow> world \<Rightarrow> (py_error + py_float \<times> string list) \<times> world" where
  "get_wallet_balance e wallet_path w =
     (case (case wallet_path of
              None \<Rightarrow> find_wallet_path e (w_fs w)
            | Some x \<Rightarrow> Inr (Some x)) of
        Inl err \<Rightarrow> (Inl err, w)
      | Inr None \<Rightarrow>
          (Inr (PyFloat ''0'' ''0'', [''Cannot get balance: Arweave wallet path not found.'']), w)
      | Inr (Some wallet_path') \<Rightarrow>
          if wallet_path' = [] then
            (Inr (PyFloat ''0'' ''0'', [''Cannot get balance: Arweave wallet path not found.'']), w)
          else
            (case get_wallet_balance_try e wallet_path' w of
               (Inr r, w') \<Rightarrow> (Inr r, w')
             | (Inl FileNotFoundError, w') \<Rightarrow>
                 (Inr (PyFloat ''0'' ''0'',
                       [[CHR 0x27] @ ''arkb'' @ [CHR 0x27]
                        @ '' command not found. Please ensure Arweave Wallet Kit is installed and in PATH.'']),
                  w')
             | (Inl (OtherError msg), w') \<Rightarrow>
                 (Inr (PyFloat ''0'' ''0'', [''Error checking wallet balance: '' @ msg]), w')
             | (Inl err, w') \<Rightarrow>
                 (Inr (PyFloat ''0'' ''0'', [''Error checking wallet balance: '']), w')))"

subsection \<open>Uploading one file\<close>

definition default_tags :: "(string \<times> string) list" where
  "default_tags = [(''Content-Type'', ''text/markdown''), (''App-Name'', ''Quartz-Notes'')]"

definition arkb_deploy_cmd :: "path \<Rightarrow> (string \<times> string) list \<Rightarrow> string \<Rightarrow> string list" where
  "arkb_deploy_cmd file_path tags wallet_path =
     [''arkb'', ''deploy'', path_str file_path, ''--wallet'', wallet_path]
     @ concat (map (\<lambda>(name, val). [''--tag'', name @ '':'' @ val]) tags)
     @ [''--no-bundle'', ''--auto-confirm'']"

text \<open>\<^verbatim>\<open>https://arweave\.net/([a-zA-Z0-9_-]{43})\<close> at the start of a text.\<close>

definition match_arweave_url :: "string \<Rightarrow> string option" where
  "match_arweave_url s =
     (case strip_prefix ''https://arweave.net/'' s of
        None \<Rightarrow> None
      | Some r \<Rightarrow>
          if 43 \<le> length r \<and> list_all is_txid_char (take 43 r) then Some (take 43 r) else None)"

text \<open>
  \<^verbatim>\<open>re.findall(r"\b([a-zA-Z0-9_-]{43})\b", text)\<close>: the matches from left to right, none
  overlapping another. The first argument tells whether the character before the text
  is a word character.
\<close>

function findall_txid :: "bool \<Rightarrow> string \<Rightarrow> string list" where
  "findall_txid prev_word [] = []"
| "findall_txid prev_word (c # cs) =
     (let candidate = take 43 (c # cs);
          rest = drop 43 (c # cs);
          next_word = (case rest of [] \<Rightarrow> False | d # _ \<Rightarrow> is_word_char d)
      in if length candidate = 43 \<and> list_all is_txid_char candidate
            \<and> prev_word \<noteq> is_word_char c \<and> is_word_char (last candidate) \<noteq> next_word
         then candidate # findall_txid (is_word_char (last candidate)) rest
         else findall_txid (is_word_char c) cs)"
  by pat_completeness auto
termination
  by (relation "measure (\<lambda>(b, s). length s)") auto

text \<open>\<^verbatim>\<open>_execute_arkb_deploy\<close>: every exception inside is caught and gives \<^verbatim>\<open>None\<close>.\<close>

definition execute_arkb_deploy ::
  "env \<Rightarrow> path \<Rightarrow> (string \<times> string) list \<Rightarrow> string \<Rightarrow> world \<Rightarrow> string option \<times> world" where
  "execute_arkb_deploy e file_path tags wallet_path w =
     (case run_cmd e (arkb_deploy_cmd file_path tags wallet_path) w of
        (ExecNotFound msg, w') \<Rightarrow> (None, w')
      | (ExecError msg, w') \<Rightarrow> (None, w')
      | (Exited returncode stdout_text stderr_text, w') \<Rightarrow>
          if returncode \<noteq> 0 then (None, w')
          else
            (case search_from match_arweave_url stdout_text of
               Some tx_id \<Rightarrow> (Some tx_id, w')
             | None \<Rightarrow>
                 (case findall_txid False stdout_text of
                    [] \<Rightarrow> (None, w')
                  | potential_ids \<Rightarrow> (Some (last potential_ids), w'))))"

text \<open>\<^verbatim>\<open>upload_to_arweave\<close>. In test mode nothing is run: a 43-character identifier is
  drawn from the random source. An error of the search for the wallet is passed on.\<close>

definition upload_to_arweave ::
  "env \<Rightarrow> path \<Rightarrow> (string \<times> string) list \<Rightarrow> string option \<Rightarrow> world
     \<Rightarrow> (py_error + string option) \<times> world" where
  "upload_to_arweave e file_path tags wallet_path w =
     (if arweave_test_mode e then
        (Inr (Some (map (\<lambda>j. ''abcdefghijklmnopqrstuvwxyzABCDEFGHIJKLMNOPQRSTUVWXYZ0123456789-_''
                               ! (random_choices e (w_ticks w) j mod 64)) [0..<43])),
         w\<lparr>w_ticks := Suc (w_ticks w)\<rparr>)
      else
        (case (case wallet_path of
                 None \<Rightarrow> find_wallet_path e (w_fs w)
               | Some x \<Rightarrow> Inr (Some x)) of
           Inl err \<Rightarrow> (Inl err, w)
         | Inr None \<Rightarrow> (Inr None, w)
         | Inr (Some wallet_path') \<Rightarrow>
             if wallet_path' = [] then (Inr None, w)
             else (case execute_arkb_deploy e file_path tags wallet_path' w of
                     (tx_id, w') \<Rightarrow> (Inr tx_id, w'))))"

subsection \<open>The batch driver\<close>

text \<open>
  The state of the loop of \<^verbatim>\<open>upload_files_to_arweave\<close>: the world, the index in memory
  and the result dict.
\<close>

record upload_state =
  u_world :: world
  u_index :: "jval list"
  u_results :: "(path \<times> string option) list"

text \<open>
  The body of the loop inside its \<^verbatim>\<open>try\<close>: the exception raised (if any) and the state
  reached. What was changed before a raise stays changed.
\<close>

definition upload_file_try ::
  "env \<Rightarrow> bool \<Rightarrow> path \<Rightarrow> string option \<Rightarrow> upload_state \<Rightarrow> path
     \<Rightarrow> py_error option \<times> upload_state" where
  "upload_file_try e cb index_file wallet_path st file_path =
     (case read_text (w_fs (u_world st)) file_path of
        Inl err \<Rightarrow> (Some err, st)
      | Inr content \<Rightarrow>
      (case frontmatter_load e content of
        Inl err \<Rightarrow> (Some err, st)
      | Inr post \<Rightarrow>
          let file_uuid = meta_get post ''uuid'' [];
              title = meta_get post ''title'' ''Untitled'';
              file_type = meta_get post ''type'' []
          in
          if file_uuid = [] then
            (None, st\<lparr>u_world := notify cb (''Skipping '' @ path_name file_path
                                            @ '': No UUID found in frontmatter.'') (u_world st)\<rparr>)
          else
            let tags = default_tags @ [(''UUID'', file_uuid)]
                       @ (if file_type \<noteq> [] then [(''Type'', file_type)] else [])
            in
            (case upload_to_arweave e file_path tags wallet_path (u_world st) of
               (Inl err, w1) \<Rightarrow> (Some err, st\<lparr>u_world := w1\<rparr>)
             | (Inr None, w1) \<Rightarrow>
                 (None, st\<lparr>u_world := notify cb (''Failed to upload '' @ path_name file_path
                                                 @ '' to Arweave.'') w1\<rparr>)
             | (Inr (Some tx_id), w1) \<Rightarrow>
                 if tx_id = [] then
                   (None, st\<lparr>u_world := notify cb (''Failed to upload '' @ path_name file_path
                                                   @ '' to Arweave.'') w1\<rparr>)
                 else
                   let results = results_set (u_results st) file_path (Some tx_id);
                       timestamp = now_isoformat e (w_ticks w1);
                       w2 = w1\<lparr>w_ticks := Suc (w_ticks w1)\<rparr>;
                       st2 = st\<lparr>u_world := w2, u_results := results\<rparr>
                   in
                   (case arweave_find_or_append file_uuid title
                           (arweave_hash_entry tx_id timestamp) (u_index st) of
                      Inl err \<Rightarrow> (Some err, st2)
                    | Inr index_data \<Rightarrow>
                        (case save_arweave_index index_data index_file (w_fs w2) of
                           Inl err \<Rightarrow> (Some err, st2\<lparr>u_index := index_data\<rparr>)
                         | Inr (saved, states) \<Rightarrow>
                             let w3 = w2\<lparr>w_fs := last states\<rparr>;
                                 w4 = (if saved then w3
                                       else notify cb
                                              (''Critical: Failed to save updated Arweave index after uploading ''
                                               @ path_name file_path @ ''!'') w3);
                                 w5 = notify cb (''Uploaded '' @ path_name file_path @ '': ''
                                                 @ take 10 tx_id @ ''...'') w4
                             in (None, st2\<lparr>u_world := w5, u_index := index_data\<rparr>))))))"

text \<open>One turn of the loop: the default result, the body, and the \<^verbatim>\<open>except\<close> handler.\<close>

definition upload_file ::
  "env \<Rightarrow> bool \<Rightarrow> path \<Rightarrow> string option \<Rightarrow> upload_state \<Rightarrow> path \<Rightarrow> upload_state" where
  "upload_file e cb index_file wallet_path st file_path =
     (case upload_file_try e cb index_file wallet_path
             (st\<lparr>u_results := results_set (u_results st) file_path None\<rparr>) file_path of
        (None, st') \<Rightarrow> st'
      | (Some err, st') \<Rightarrow>
          st'\<lparr>u_world := notify cb (''Error uploading '' @ path_name file_path) (u_world st')\<rparr>)"

text \<open>\<^verbatim>\<open>item.copy()\<close> for every record of the index: a dict and a list have the method,
  a text, a number, a truth value and \<^verbatim>\<open>None\<close> do not.\<close>

fun copy_all :: "jval list \<Rightarrow> py_error + jval list" where
  "copy_all [] = Inr []"
| "copy_all (item # rest) =
     (case item of
        JDict d \<Rightarrow> (case copy_all rest of Inl err \<Rightarrow> Inl err | Inr copies \<Rightarrow> Inr (item # copies))
      | JList xs \<Rightarrow> (case copy_all rest of Inl err \<Rightarrow> Inl err | Inr copies \<Rightarrow> Inr (item # copies))
      | _ \<Rightarrow> Inl AttributeError)"

text \<open>
  \<^verbatim>\<open>upload_files_to_arweave\<close>: the result dict (or the error raised) and the world after
  the batch. The search for the wallet, the load of the index and the copy of its records
  stand before the loop, in no \<^verbatim>\<open>try\<close>.
\<close>

definition upload_files_to_arweave ::
  "env \<Rightarrow> path list \<Rightarrow> bool \<Rightarrow> path \<Rightarrow> world
     \<Rightarrow> (py_error + (path \<times> string option) list) \<times> world" where
  "upload_files_to_arweave e files_to_upload cb index_file w =
     (if files_to_upload = [] then (Inr [], w)
      else
        case find_wallet_path e (w_fs w) of
          Inl err \<Rightarrow> (Inl err, w)
        | Inr wallet_path \<Rightarrow>
            if (wallet_path = None \<or> wallet_path = Some []) \<and> \<not> arweave_test_mode e then
              (Inr (all_failed files_to_upload),
               notify cb ''Arweave upload cannot proceed: Wallet path not found.'' w)
            else
              let w1 = notify cb (''Starting Arweave upload for ''
                                  @ show_nat (length files_to_upload) @ '' files...'') w
              in case load_arweave_index (w_fs w1) index_file of
                   Inl err \<Rightarrow> (Inl err, w1)
                 | Inr index_data \<Rightarrow>
                     (case copy_all index_data of
                        Inl err \<Rightarrow> (Inl err, w1)
                      | Inr original_index_data \<Rightarrow>
                          let st = foldl (upload_file e cb index_file wallet_path)
                                     \<lparr>u_world = w1, u_index = index_data, u_results = []\<rparr>
                                     files_to_upload;
                              success_count = count_succeeded (u_results st);
                              fail_count = int (length files_to_upload) - int success_count
                          in (Inr (u_results st),
                              notify cb (''Arweave upload finished: '' @ show_nat success_count
                                         @ '' succeeded, '' @ show_int fail_count @ '' failed.'')
                                (u_world st))))"

section \<open>The social network\<close>

subsection \<open>Credentials and the command-line client\<close>

text \<open>
  \<^verbatim>\<open>load_atproto_credentials\<close> with its default file: the two environment variables
  first, then the JSON file. A document that is not a dict with the three fields ends in
  \<^verbatim>\<open>None\<close>, whether by the test of the fields or by the exception of the subscript.
  The existence test stands before the \<^verbatim>\<open>try\<close>; the names of the default file are
  short, so it has no error to pass on.
\<close>

definition load_atproto_credentials :: "env \<Rightarrow> filesystem \<Rightarrow> (jval \<times> jval \<times> jval) option" where
  "load_atproto_credentials e fs =
     (let creds_file = [''data'', ''atproto_credentials.json''];
          from_file =
            (if \<not> path_exists fs creds_file then None
             else case read_text fs creds_file of
                    Inl err \<Rightarrow> None
                  | Inr content \<Rightarrow>
                      (case json_loads content of
                         Inr (JDict data) \<Rightarrow>
                           (case (map_of data ''handle'', map_of data ''email'',
                                  map_of data ''password'') of
                              (Some handle, Some email, Some password) \<Rightarrow>
                                Some (handle, email, password)
                            | _ \<Rightarrow> None)
                       | _ \<Rightarrow> None))
      in case (environ e ''BSKY_USER'', environ e ''BSKY_PASSWORD'') of
           (Some bsky_user, Some bsky_password) \<Rightarrow>
             if bsky_user \<noteq> [] \<and> bsky_password \<noteq> []
             then Some (JStr bsky_user, JStr bsky_user, JStr bsky_password)
             else from_file
         | _ \<Rightarrow> from_file)"

definition installation_guide :: string where
  "installation_guide =
     [CHR 0x0A] @ ''bsky CLI not found. To install:'' @ [CHR 0x0A, CHR 0x0A]
     @ ''1. Install Node.js (https://nodejs.org)'' @ [CHR 0x0A]
     @ ''2. Run: npm install -g @atproto/cli'' @ [CHR 0x0A]
     @ ''3. Run: bsky login'' @ [CHR 0x0A]
     @ ''4. Follow the prompts to authenticate with your Bluesky account'' @ [CHR 0x0A]"

text \<open>\<^verbatim>\<open>check_bsky_cli_installed\<close>.\<close>

definition check_bsky_cli_installed :: "env \<Rightarrow> world \<Rightarrow> (bool \<times> string) \<times> world" where
  "check_bsky_cli_installed e w =
     (case run_cmd e [''bsky'', ''--version''] w of
        (ExecNotFound msg, w') \<Rightarrow> ((False, installation_guide), w')
      | (ExecError msg, w') \<Rightarrow> ((False, ''Error checking bsky CLI: '' @ msg), w')
      | (Exited returncode out err, w') \<Rightarrow>
          if returncode = 0 then ((True, ''bsky CLI is installed: '' @ py_strip out), w')
          else ((False, ''bsky CLI is installed but returned an error''), w'))"

subsection \<open>Posting one text\<close>

text \<open>\<^verbatim>\<open>https://bsky\.app/profile/[^/]+/post/[^\s]+\<close> and \<^verbatim>\<open>at://[^\s]+\<close> at the start of
  a text: the whole match.\<close>

definition match_bsky_url :: "string \<Rightarrow> string option" where
  "match_bsky_url s =
     (case strip_prefix ''https://bsky.app/profile/'' s of
        None \<Rightarrow> None
      | Some r \<Rightarrow>
          let handle = takeWhile (\<lambda>c. c \<noteq> CHR ''/'') r
          in if handle = [] then None
             else (case strip_prefix ''/post/'' (dropWhile (\<lambda>c. c \<noteq> CHR ''/'') r) of
                     None \<Rightarrow> None
                   | Some r2 \<Rightarrow>
                       let post_id = takeWhile (\<lambda>c. \<not> is_space c) r2
                       in if post_id = [] then None
                          else Some (''https://bsky.app/profile/'' @ handle @ ''/post/'' @ post_id)))"

definition match_at_uri :: "string \<Rightarrow> string option" where
  "match_at_uri s =
     (case strip_prefix ''at://'' s of
        None \<Rightarrow> None
      | Some r \<Rightarrow>
          let rest = takeWhile (\<lambda>c. \<not> is_space c) r
          in if rest = [] then None else Some (''at://'' @ rest))"

text \<open>
  The \<^verbatim>\<open>try\<close> block of \<^verbatim>\<open>post_to_atproto\<close>: \<open>Inl\<close> carries the text of an exception
  raised, \<open>Inr\<close> the value returned.
\<close>

definition post_to_atproto_try ::
  "env \<Rightarrow> bool \<Rightarrow> string \<Rightarrow> world \<Rightarrow> (string + string option) \<times> world" where
  "post_to_atproto_try e cb user_text w =
     (if user_text = [] then (Inr None, notify cb ''Cannot post: Empty post content'' w)
      else
        (case check_bsky_cli_installed e w of
           ((is_cli_installed, cli_message), w1) \<Rightarrow>
             if \<not> is_cli_installed then (Inr None, notify cb (''Cannot post: '' @ cli_message) w1)
             else
               (case run_cmd e [''bsky'', ''show-session''] w1 of
                  (ExecNotFound msg, w2) \<Rightarrow> (Inl msg, w2)
                | (ExecError msg, w2) \<Rightarrow> (Inl msg, w2)
                | (Exited check_code check_out check_err, w2) \<Rightarrow>
                    if check_code \<noteq> 0 then
                      (Inr None,
                       notify cb (''Cannot post: Not authenticated with Bluesky. Please run ''
                                  @ [CHR 0x27] @ ''bsky login'' @ [CHR 0x27] @ '' in terminal'') w2)
                    else
                      (case run_cmd e [''bsky'', ''post'', user_text]
                              (notify cb ''Posting to Bluesky...'' w2) of
                         (ExecNotFound msg, w4) \<Rightarrow> (Inl msg, w4)
                       | (ExecError msg, w4) \<Rightarrow> (Inl msg, w4)
                       | (Exited post_code stdout_str stderr_str, w4) \<Rightarrow>
                           if post_code \<noteq> 0 then
                             (Inr None,
                              notify cb (''Failed to post to Bluesky. Error: '' @ stderr_str) w4)
                           else
                             (case search_from match_bsky_url stdout_str of
                                Some post_url \<Rightarrow>
                                  (Inr (Some post_url),
                                   notify cb (''Successfully posted to Bluesky: '' @ post_url) w4)
                              | None \<Rightarrow>
                                  (case search_from match_at_uri stdout_str of
                                     Some at_uri \<Rightarrow>
                                       let parts = split_on (CHR ''/'') at_uri
                                       in if 4 \<le> length parts then
                                            (if 5 \<le> length parts then
                                               (Inr (Some (''https://bsky.app/profile/'' @ parts ! 2
                                                           @ ''/post/'' @ parts ! 4)),
                                                notify cb (''Successfully posted to Bluesky: ''
                                                           @ ''https://bsky.app/profile/'' @ parts ! 2
                                                           @ ''/post/'' @ parts ! 4) w4)
                                             else (Inl ''list index out of range'', w4))
                                          else
                                            (Inr (Some at_uri),
                                             notify cb (''Posted to Bluesky (URI: '' @ at_uri @ '')'') w4)
                                   | None \<Rightarrow>
                                       (Inr (Some (''Command succeeded but couldn'' @ [CHR 0x27]
                                                   @ ''t extract URL. Output: '' @ take 100 stdout_str)),
                                        notify cb ''Posted to Bluesky successfully'' w4)))))))"

text \<open>\<^verbatim>\<open>post_to_atproto\<close>. In test mode nothing is run.\<close>

definition post_to_atproto ::
  "env \<Rightarrow> path \<Rightarrow> (jval \<times> jval \<times> jval) option \<Rightarrow> bool \<Rightarrow> string \<Rightarrow> world
     \<Rightarrow> string option \<times> world" where
  "post_to_atproto e file_path credentials cb user_text w =
     (if atproto_test_mode e then
        (Some ''https://bsky.app/profile/test.bsky.social/post/fake123'', w)
      else
        (case (case credentials of
                 None \<Rightarrow> load_atproto_credentials e (w_fs w)
               | Some c \<Rightarrow> Some c) of
           None \<Rightarrow> (None, notify cb ''Cannot post: No AT Protocol credentials found'' w)
         | Some c \<Rightarrow>
             (case post_to_atproto_try e cb user_text w of
                (Inr r, w') \<Rightarrow> (r, w')
              | (Inl msg, w') \<Rightarrow>
                  (None, notify cb (''Error posting to AT Protocol: '' @ msg) w'))))"

subsection \<open>The batch driver\<close>

record post_state =
  p_world :: world
  p_index :: "jval list"
  p_results :: "(path \<times> string option) list"

text \<open>
  The body of the loop of \<^verbatim>\<open>post_files_to_atproto\<close> inside its \<^verbatim>\<open>try\<close>. The metadata
  is read in a \<^verbatim>\<open>try\<close> of its own, with fallback values; the identifier is not required
  for posting, only for the index.
\<close>

definition post_file_try ::
  "env \<Rightarrow> bool \<Rightarrow> path \<Rightarrow> (jval \<times> jval \<times> jval) option \<Rightarrow> string \<Rightarrow> post_state \<Rightarrow> path
     \<Rightarrow> py_error option \<times> post_state" where
  "post_file_try e cb index_file credentials user_text st file_path =
     (let meta = (case read_text (w_fs (p_world st)) file_path of
                    Inl err \<Rightarrow> None
                  | Inr content \<Rightarrow>
                      (case frontmatter_load e content of
                         Inl err \<Rightarrow> None
                       | Inr post \<Rightarrow> Some post));
          file_uuid = (case meta of None \<Rightarrow> [] | Some post \<Rightarrow> meta_get post ''uuid'' []);
          title = (case meta of
                     None \<Rightarrow> path_name file_path
                   | Some post \<Rightarrow> meta_get post ''title'' ''Untitled'')
      in case post_to_atproto e file_path credentials cb user_text (p_world st) of
           (None, w1) \<Rightarrow>
             (None, st\<lparr>p_world := notify cb (''Failed to post '' @ path_name file_path
                                             @ '' to AT Protocol.'') w1\<rparr>)
         | (Some post_url, w1) \<Rightarrow>
             if post_url = [] then
               (None, st\<lparr>p_world := notify cb (''Failed to post '' @ path_name file_path
                                               @ '' to AT Protocol.'') w1\<rparr>)
             else
               let st1 = st\<lparr>p_world := w1,
                             p_results := results_set (p_results st) file_path (Some post_url)\<rparr>
               in if file_uuid \<noteq> [] then
                    let timestamp = now_isoformat e (w_ticks w1);
                        w2 = w1\<lparr>w_ticks := Suc (w_ticks w1)\<rparr>
                    in (case atproto_find_or_append file_uuid title post_url timestamp
                                 (p_index st) of
                          Inl err \<Rightarrow> (Some err, st1\<lparr>p_world := w2\<rparr>)
                        | Inr posts_index \<Rightarrow>
                            (case save_atproto_posts_index posts_index index_file (w_fs w2) of
                               Inl err \<Rightarrow> (Some err, st1\<lparr>p_world := w2, p_index := posts_index\<rparr>)
                             | Inr (saved, states) \<Rightarrow>
                                 let w3 = w2\<lparr>w_fs := last states\<rparr>;
                                     w4 = (if saved then w3
                                           else notify cb
                                                  (''Failed to save updated AT Protocol index after posting ''
                                                   @ path_name file_path @ ''!'') w3)
                                 in (None,
                                     st1\<lparr>p_world := notify cb (''Posted '' @ path_name file_path
                                                                 @ '' to AT Protocol'') w4,
                                          p_index := posts_index\<rparr>)))
                  else
                    (None, st1\<lparr>p_world := notify cb (''Posted '' @ path_name file_path
                                                     @ '' to AT Protocol'') w1\<rparr>))"

definition post_file ::
  "env \<Rightarrow> bool \<Rightarrow> path \<Rightarrow> (jval \<times> jval \<times> jval) option \<Rightarrow> string \<Rightarrow> post_state \<Rightarrow> path
     \<Rightarrow> post_state" where
  "post_file e cb index_file credentials user_text st file_path =
     (case post_file_try e cb index_file credentials user_text
             (st\<lparr>p_results := results_set (p_results st) file_path None\<rparr>) file_path of
        (None, st') \<Rightarrow> st'
      | (Some err, st') \<Rightarrow>
          st'\<lparr>p_world := notify cb (''Error posting '' @ path_name file_path) (p_world st')\<rparr>)"

text \<open>
  \<^verbatim>\<open>post_files_to_atproto\<close>: the result dict (or the error raised) and the world after
  the batch. The load of the index stands before the loop, in no \<^verbatim>\<open>try\<close>.
\<close>

definition post_files_to_atproto ::
  "env \<Rightarrow> path list \<Rightarrow> bool \<Rightarrow> path \<Rightarrow> string \<Rightarrow> world
     \<Rightarrow> (py_error + (path \<times> string option) list) \<times> world" where
  "post_files_to_atproto e files_to_post cb index_file user_text w =
     (if files_to_post = [] then (Inr [], w)
      else
        let credentials = load_atproto_credentials e (w_fs w)
        in if credentials = None \<and> \<not> atproto_test_mode e then
             (Inr (all_failed files_to_post),
              notify cb ''AT Protocol posting cannot proceed: No credentials found.'' w)
           else
             let w1 = notify cb (''Starting AT Protocol posting for ''
                                 @ show_nat (length files_to_post) @ '' files...'') w
             in case load_atproto_posts_index (w_fs w1) index_file of
                  Inl err \<Rightarrow> (Inl err, w1)
                | Inr posts_index \<Rightarrow>
                    let st = foldl (post_file e cb index_file credentials user_text)
                               \<lparr>p_world = w1, p_index = posts_index, p_results = []\<rparr>
                               files_to_post;
                        succeeded = count_succeeded (p_results st)
                    in (Inr (p_results st),
                        notify cb (''AT Protocol posting process completed: ''
                                   @ show_nat succeeded @ '' succeeded, ''
                                   @ show_nat (length (p_results st) - succeeded)
                                   @ '' failed.'') (p_world st)))"

section \<open>Vocabulary for the statements about the batch drivers\<close>


definition has_identifier :: "env \<Rightarrow> filesystem \<Rightarrow> path \<Rightarrow> bool" where
  "has_identifier e fs file_path =
     (case read_text fs file_path of
        Inl err \<Rightarrow> False
      | Inr content \<Rightarrow>
          (case frontmatter_load e content of
             Inl err \<Rightarrow> False
           | Inr post \<Rightarrow> meta_get post ''uuid'' [] \<noteq> []))"

text \<open>The deploy command the content-addressed driver builds for a note.\<close>

definition note_deploy_cmd :: "env \<Rightarrow> filesystem \<Rightarrow> string \<Rightarrow> path \<Rightarrow> string list" where
  "note_deploy_cmd e fs wallet_path file_path =
     (case read_text fs file_path of
        Inl err \<Rightarrow> []
      | Inr content \<Rightarrow>
          (case frontmatter_load e content of
             Inl err \<Rightarrow> []
           | Inr post \<Rightarrow>
               arkb_deploy_cmd file_path
                 (default_tags @ [(''UUID'', meta_get post ''uuid'' [])]
                  @ (if meta_get post ''type'' [] \<noteq> [] then [(''Type'', meta_get post ''type'' [])]
                     else []))
                 wallet_path))"

text \<open>What the caller, the operating system and the user interface saw of a batch: the
  result dict (or the error raised), the commands run and the notifications.\<close>

definition observe_batch ::
  "(py_error + (path \<times> string option) list) \<times> world
     \<Rightarrow> (py_error + (path \<times> string option) list) \<times> string list list \<times> string list" where
  "observe_batch r = (fst r, w_calls (snd r), w_notes (snd r))"

section \<open>Scenarios\<close>

text \<open>
  Concrete environments and worlds for the examples: the given environment variables,
  answers of the operating system and front matter parser, a fixed clock and random
  source, both test modes off; a world with the given files, in which nothing has
  happened yet.
\<close>

definition scenario_env ::
  "(string \<rightharpoonup> string) \<Rightarrow> (string list list \<Rightarrow> string list \<Rightarrow> proc_outcome)
     \<Rightarrow> (string \<Rightarrow> py_error + (string \<rightharpoonup> string)) \<Rightarrow> env" where
  "scenario_env vars answers parser =
     \<lparr>environ = vars, home_dir = [''home''], arweave_test_mode = False,
      atproto_test_mode = False, run_process = answers,
      now_isoformat = (\<lambda>n. ''2024-01-01T00:00:00+00:00''), random_choices = (\<lambda>n j. j),
      frontmatter_load = parser\<rparr>"

definition scenario_world :: "filesystem \<Rightarrow> world" where
  "scenario_world fs = \<lparr>w_fs = fs, w_calls = [], w_notes = [], w_ticks = 0\<rparr>"

text \<open>A front matter parser for the examples: the text of a note is its identifier, and
  the text \<open>-\<close> is a note without identifier.\<close>

definition scenario_parser :: "string \<Rightarrow> py_error + (string \<rightharpoonup> string)" where
  "scenario_parser content =
     Inr (if content = ''-'' then Map.empty else [''uuid'' \<mapsto> content, ''title'' \<mapsto> ''T''])"

text \<open>An operating system without the command-line programs, and one in which the
  posting program is installed, authenticated and answers a post with its URL.\<close>

definition scenario_no_program :: "string list list \<Rightarrow> string list \<Rightarrow> proc_outcome" where
  "scenario_no_program history cmd = ExecNotFound ''[Errno 2] No such file or directory''"


section \<open>Properties of the index store\<close>

subsection \<open>Saving\<close>

text \<open>
  Claim C2. A save should copy an existing destination to a backup sibling, write a
  temporary sibling and rename it over the destination, so that no reader finds a partly
  written index. \<^verbatim>\<open>save_atproto_posts_index\<close> does none of it. On an index file that holds
  the text \<open>old\<close> it reports success after these states of the destination, the backup
  sibling and the temporary sibling: the destination is opened for writing, so that a
  reader finds it empty before the new text is there, and neither sibling ever exists.
  On the same input \<^verbatim>\<open>save_arweave_index\<close>, its sibling, copies \<open>old\<close> to the backup,
  fills the temporary file and renames it: the destination holds \<open>old\<close> until it holds
  the complete new text.
\<close>

theorem save_atproto_posts_index_truncates_in_place:
  "observe_save [[''data'', ''atproto_posts.json''], [''data'', ''atproto_posts.json.bak''],
                 [''data'', ''atproto_posts.tmp'']]
     (save_atproto_posts_index [JDict [(''uuid'', JStr ''u1'')]] [''data'', ''atproto_posts.json'']
        [[''data''] \<mapsto> Dir, [''data'', ''atproto_posts.json''] \<mapsto> File ''old''])
   = Inr (True,
       [[Some (File ''old''), None, None],
        [Some (File ''old''), None, None],
        [Some (File []), None, None],
        [Some (File (json_dumps (JDict [(''posts'', JList [JDict [(''uuid'', JStr ''u1'')]])]))),
         None, None]])
   \<and> observe_save [[''data'', ''atproto_posts.json''], [''data'', ''atproto_posts.json.bak''],
                 [''data'', ''atproto_posts.tmp'']]
     (save_arweave_index [JDict [(''uuid'', JStr ''u1'')]] [''data'', ''atproto_posts.json'']
        [[''data''] \<mapsto> Dir, [''data'', ''atproto_posts.json''] \<mapsto> File ''old''])
   = Inr (True,
       [[Some (File ''old''), None, None],
        [Some (File ''old''), None, None],
        [Some (File ''old''), Some (File []), None],
        [Some (File ''old''), Some (File ''old''), None],
        [Some (File ''old''), Some (File ''old''), Some (File [])],
        [Some (File ''old''), Some (File ''old''),
         Some (File (json_dumps (JDict [(''files'', JList [JDict [(''uuid'', JStr ''u1'')]])])))],
        [Some (File (json_dumps (JDict [(''files'', JList [JDict [(''uuid'', JStr ''u1'')]])]))),
         Some (File ''old''), None]])"
  by code_simp

subsection \<open>Round trip\<close>

text \<open>
  Claim C1. Saving and then loading should give the records back. In the content-addressed
  variant it does not when a string holds a comma followed by a closing brace or bracket:
  the loader's substitutions rewrite the text inside the string literal. The save of one
  record with the title \<open>a,}\<close> reports success and the load returns the title \<open>a}\<close>. The
  social variant, which decodes the text as it is, returns the same record unchanged.
\<close>

theorem arweave_round_trip_loses_comma_brace:
  "save_then_load_arweave [JDict [(''uuid'', JStr ''u1''), (''title'', JStr ''a,}'')]]
     [''data'', ''archive.json''] Map.empty
   = Inr (True, Inr [JDict [(''uuid'', JStr ''u1''), (''title'', JStr ''a}'')]])
   \<and> save_then_load_atproto [JDict [(''uuid'', JStr ''u1''), (''title'', JStr ''a,}'')]]
     [''data'', ''atproto_posts.json''] Map.empty
   = Inr (True, Inr [JDict [(''uuid'', JStr ''u1''), (''title'', JStr ''a,}'')]])"
  by code_simp

subsection \<open>Loading\<close>

text \<open>Neither loader raises: every error inside becomes the empty list.\<close>

subsection \<open>Loading\<close>

text \<open>
  Claim C5. A load should tolerate a trailing comma. \<^verbatim>\<open>load_atproto_posts_index\<close>
  decodes the text as it is: for an index that is valid JSON but for the comma before
  the closing bracket it returns the empty list, where it returns the record for the
  same text without the comma. \<^verbatim>\<open>load_arweave_index\<close>, its sibling, removes the comma
  first and returns the record of the same document under its key.
\<close>

theorem load_atproto_posts_index_rejects_trailing_comma:
  "load_atproto_posts_index
     [[''data'', ''atproto_posts.json''] \<mapsto> File ''{\"posts\": [{\"uuid\": \"abc\"},]}'']
     [''data'', ''atproto_posts.json'']
   = Inr []
   \<and> load_atproto_posts_index
     [[''data'', ''atproto_posts.json''] \<mapsto> File ''{\"posts\": [{\"uuid\": \"abc\"}]}'']
     [''data'', ''atproto_posts.json'']
   = Inr [JDict [(''uuid'', JStr ''abc'')]]
   \<and> load_arweave_index
     [[''data'', ''archive.json''] \<mapsto> File ''{\"files\": [{\"uuid\": \"abc\"},]}'']
     [''data'', ''archive.json'']
   = Inr [JDict [(''uuid'', JStr ''abc'')]]"
  by code_simp

section \<open>Properties of the status resolvers\<close>

lemma py_get_dict: "is_dict item \<Longrightarrow> \<exists>v. py_get item k = Inr v"
  by (cases item) (simp_all add: py_get_def)

lemma arweave_scan_absent:
  "list_all is_dict snap \<Longrightarrow> \<not> list_ex (has_uuid u) snap \<Longrightarrow>
   arweave_status_scan u snap = Inr ''Not uploaded''"
proof (induction snap)
  case Nil
  then show ?case by simp
next
  case (Cons item rest)
  from Cons.prems obtain v where v: "py_get item ''uuid'' = Inr v"
    using py_get_dict [of item "''uuid''"] by auto
  with Cons.prems have "v \<noteq> JStr u" by (auto simp: has_uuid_def)
  with v Cons show ?case by simp
qed

lemma arweave_scan_found:
  assumes "list_all is_dict pre" "\<not> list_ex (has_uuid u) pre" "has_uuid u r"
    and "py_get_default r ''arweave_hashes'' (JList []) = Inr (JList h)"
  shows "arweave_status_scan u (pre @ r # post) =
         Inr (if h = [] then ''Tracked in archive, but no uploads recorded''
              else uploaded_text (length h))"
  using assms
proof (induction pre)
  case Nil
  then show ?case by (simp add: has_uuid_def uploaded_text_def)
next
  case (Cons item rest)
  from Cons.prems obtain v where v: "py_get item ''uuid'' = Inr v"
    using py_get_dict [of item "''uuid''"] by auto
  with Cons.prems have "v \<noteq> JStr u" by (auto simp: has_uuid_def)
  with v Cons show ?case by simp
qed

lemma atproto_scan_absent:
  "list_all is_dict snap \<Longrightarrow> \<not> list_ex (has_uuid u) snap \<Longrightarrow>
   atproto_status_scan u snap = Inr ''Not posted''"
proof (induction snap)
  case Nil
  then show ?case by simp
next
  case (Cons item rest)
  from Cons.prems obtain v where v: "py_get item ''uuid'' = Inr v"
    using py_get_dict [of item "''uuid''"] by auto
  with Cons.prems have "v \<noteq> JStr u" by (auto simp: has_uuid_def)
  with v Cons show ?case by simp
qed

lemma atproto_scan_found:
  assumes "list_all is_dict pre" "\<not> list_ex (has_uuid u) pre" "has_uuid u r"
    and "py_get r ''url'' = Inr url"
  shows "atproto_status_scan u (pre @ r # post) =
         Inr (if py_truthy url then ''Posted'' else ''Draft'')"
  using assms
proof (induction pre)
  case Nil
  then show ?case by (simp add: has_uuid_def)
next
  case (Cons item rest)
  from Cons.prems obtain v where v: "py_get item ''uuid'' = Inr v"
    using py_get_dict [of item "''uuid''"] by auto
  with Cons.prems have "v \<noteq> JStr u" by (auto simp: has_uuid_def)
  with v Cons show ?case by simp
qed

text \<open>
  Claim C10. Both status resolvers answer the literal identifier \<open>N/A\<close> with the
  no-identifier result, the same as for the empty identifier, whatever the snapshot, the
  file system and the index path are: the snapshot is not consulted.
\<close>

theorem status_na_is_no_identifier:
  "get_arweave_status fs (Some ''N/A'') index_data index_file = Inr ''No UUID found''
   \<and> get_arweave_status fs (Some ''N/A'') index_data index_file
       = get_arweave_status fs' (Some []) index_data' index_file'
   \<and> get_atproto_status fs (Some ''N/A'') index_data = Inr ''No UUID found''
   \<and> get_atproto_status fs (Some ''N/A'') index_data
       = get_atproto_status fs' (Some []) index_data'"
  by (simp add: get_arweave_status_def get_atproto_status_def)

text \<open>With an explicit snapshot, neither resolver reads the file system.\<close>

lemma get_arweave_status_snapshot:
  "get_arweave_status fs ident (Some snap) p =
     (case ident of
        None \<Rightarrow> Inr ''No UUID found''
      | Some u \<Rightarrow>
          if u = ''N/A'' \<or> u = [] then Inr ''No UUID found''
          else if snap = [] then Inr ''Not uploaded (archive not found or empty)''
          else arweave_status_scan u snap)"
  by (simp add: get_arweave_status_def split: option.split)

lemma get_atproto_status_snapshot:
  "get_atproto_status fs ident (Some snap) =
     (case ident of
        None \<Rightarrow> Inr ''No UUID found''
      | Some u \<Rightarrow>
          if u = ''N/A'' \<or> u = [] then Inr ''No UUID found''
          else if snap = [] then Inr ''Not posted (index not found or empty)''
          else atproto_status_scan u snap)"
  by (simp add: get_atproto_status_def split: option.split)

text \<open>
  Claim C4. Given an explicit snapshot, status resolution follows the priority rules. An
  absent or empty identifier gives the no-identifier result. Otherwise an empty snapshot
  gives the index-unavailable result. Otherwise, on a snapshot of records (dicts), an
  identifier that no record carries gives the not-published result, and the first record
  that carries it decides: in the historied variant a history \<open>h\<close> gives the uploaded
  result with the count \<open>length h\<close>, or the tracked-but-no-uploads result when \<open>h\<close> is
  empty; in the single-slot variant the record gives Posted when its locator is set
  (truthy) and Draft otherwise. The result depends on the identifier and the snapshot
  only, so two calls with the same inputs agree.
\<close>

theorem status_resolution:
  "get_arweave_status fs None (Some snap) p = Inr ''No UUID found''
   \<and> get_arweave_status fs (Some []) (Some snap) p = Inr ''No UUID found''
   \<and> get_atproto_status fs None (Some snap) = Inr ''No UUID found''
   \<and> get_atproto_status fs (Some []) (Some snap) = Inr ''No UUID found''
   \<and> (u \<noteq> [] \<and> u \<noteq> ''N/A'' \<longrightarrow>
        get_arweave_status fs (Some u) (Some []) p
          = Inr ''Not uploaded (archive not found or empty)''
        \<and> get_atproto_status fs (Some u) (Some [])
          = Inr ''Not posted (index not found or empty)'')
   \<and> (u \<noteq> [] \<and> u \<noteq> ''N/A'' \<and> snap \<noteq> [] \<and> list_all is_dict snap
        \<and> \<not> list_ex (has_uuid u) snap \<longrightarrow>
        get_arweave_status fs (Some u) (Some snap) p = Inr ''Not uploaded''
        \<and> get_atproto_status fs (Some u) (Some snap) = Inr ''Not posted'')
   \<and> (u \<noteq> [] \<and> u \<noteq> ''N/A'' \<and> list_all is_dict pre \<and> \<not> list_ex (has_uuid u) pre
        \<and> has_uuid u r
        \<and> py_get_default r ''arweave_hashes'' (JList []) = Inr (JList h) \<longrightarrow>
        get_arweave_status fs (Some u) (Some (pre @ r # post)) p
          = Inr (if h = [] then ''Tracked in archive, but no uploads recorded''
                 else uploaded_text (length h)))
   \<and> (u \<noteq> [] \<and> u \<noteq> ''N/A'' \<and> list_all is_dict pre \<and> \<not> list_ex (has_uuid u) pre
        \<and> has_uuid u r \<and> py_get r ''url'' = Inr url \<longrightarrow>
        get_atproto_status fs (Some u) (Some (pre @ r # post))
          = Inr (if py_truthy url then ''Posted'' else ''Draft''))
   \<and> get_arweave_status fs ident (Some snap) p = get_arweave_status fs' ident (Some snap) p'
   \<and> get_atproto_status fs ident (Some snap) = get_atproto_status fs' ident (Some snap)"
  using arweave_scan_absent [of snap u] atproto_scan_absent [of snap u]
    arweave_scan_found [of pre u r h post] atproto_scan_found [of pre u r url post]
  by (simp add: get_arweave_status_snapshot get_atproto_status_snapshot)

theorem status_resolution_witness:
  "''abc'' \<noteq> [] \<and> ''abc'' \<noteq> ''N/A''
   \<and> [JDict [(''uuid'', JStr ''xyz'')]] \<noteq> []
   \<and> list_all is_dict [JDict [(''uuid'', JStr ''xyz'')]]
   \<and> \<not> list_ex (has_uuid ''abc'') [JDict [(''uuid'', JStr ''xyz'')]]
   \<and> has_uuid ''abc''
        (JDict [(''uuid'', JStr ''abc''), (''url'', JStr ''at://x''),
                (''arweave_hashes'', JList [JStr ''h1''])])
   \<and> get_arweave_status Map.empty (Some ''abc'') (Some []) []
        = Inr ''Not uploaded (archive not found or empty)''
   \<and> get_arweave_status Map.empty (Some ''abc'') (Some [JDict [(''uuid'', JStr ''xyz'')]]) []
        = Inr ''Not uploaded''
   \<and> get_atproto_status Map.empty (Some ''abc'') (Some [JDict [(''uuid'', JStr ''xyz'')]])
        = Inr ''Not posted''
   \<and> get_arweave_status Map.empty (Some ''abc'')
        (Some ([JDict [(''uuid'', JStr ''xyz'')]]
               @ JDict [(''uuid'', JStr ''abc''), (''url'', JStr ''at://x''),
                        (''arweave_hashes'', JList [JStr ''h1''])] # [])) []
        = Inr ''Uploaded (1 version)''
   \<and> get_atproto_status Map.empty (Some ''abc'')
        (Some ([JDict [(''uuid'', JStr ''xyz'')]]
               @ JDict [(''uuid'', JStr ''abc''), (''url'', JStr ''at://x''),
                        (''arweave_hashes'', JList [JStr ''h1''])] # []))
        = Inr ''Posted''"
  using status_resolution
    [where u = "''abc''" and snap = "[JDict [(''uuid'', JStr ''xyz'')]]"
       and pre = "[JDict [(''uuid'', JStr ''xyz'')]]"
       and r = "JDict [(''uuid'', JStr ''abc''), (''url'', JStr ''at://x''),
                       (''arweave_hashes'', JList [JStr ''h1''])]"
       and h = "[JStr ''h1'']" and url = "JStr ''at://x''" and post = "[]"
       and fs = Map.empty and p = "[]"]
  by (simp add: has_uuid_def py_get_def uploaded_text_def)

section \<open>Properties of the selection tracker\<close>

lemma find_relabel:
  "map node_data (find_child_file_nodes fs (relabel_file_nodes fs mark node))
   = map node_data (find_child_file_nodes fs node)"
proof (induction node)
  case (TreeNode l d cs)
  define g where "g = (\<lambda>child.
        case node_data child of
          None \<Rightarrow> []
        | Some p \<Rightarrow> if \<not> is_dir fs p then [child] else find_child_file_nodes fs child)"
  define r where "r = (\<lambda>child.
        case node_data child of
          None \<Rightarrow> child
        | Some p \<Rightarrow>
            if \<not> is_dir fs p then TreeNode (mark (path_name p)) (node_data child) (node_children child)
            else relabel_file_nodes fs mark child)"
  have step: "map node_data (g (r child)) = map node_data (g child)" if "child \<in> set cs" for child
  proof (cases "node_data child")
    case None
    then show ?thesis by (simp add: g_def r_def)
  next
    case (Some p)
    have data: "node_data (relabel_file_nodes fs mark child) = node_data child"
      by (cases child) simp
    show ?thesis
    proof (cases "is_dir fs p")
      case True
      with Some TreeNode.IH [OF that] data show ?thesis by (simp add: g_def r_def)
    next
      case False
      with Some show ?thesis by (simp add: g_def r_def)
    qed
  qed
  have "map node_data (find_child_file_nodes fs (relabel_file_nodes fs mark (TreeNode l d cs)))
        = concat (map (\<lambda>child. map node_data (g (r child))) cs)"
    by (simp add: g_def r_def map_concat o_def)
  also have "\<dots> = concat (map (\<lambda>child. map node_data (g child)) cs)"
    using step by (simp cong: map_cong)
  also have "\<dots> = map node_data (find_child_file_nodes fs (TreeNode l d cs))"
    by (simp add: g_def map_concat o_def)
  finally show ?case .
qed

lemma paths_relabel:
  "child_file_paths fs (relabel_file_nodes fs mark node) = child_file_paths fs node"
proof -
  have mf: "List.map_filter node_data ns = List.map_filter id (map node_data ns)"
    for ns :: "tree_node list"
    by (simp add: map_filter_def filter_map o_def)
  show ?thesis
    unfolding child_file_paths_def mf find_relabel ..
qed

lemma toggle_queued:
  "find_child_file_nodes fs node \<noteq> [] \<Longrightarrow>
   fst (snd (toggle_directory_selection fs S node)) =
     (if set (child_file_paths fs node) \<subseteq> S then S - set (child_file_paths fs node)
      else S \<union> set (child_file_paths fs node))"
  by (auto simp: toggle_directory_selection_def Let_def list_all_iff split: option.splits)

lemma find_after_toggle:
  "map node_data (find_child_file_nodes fs (snd (snd (toggle_directory_selection fs S node))))
   = map node_data (find_child_file_nodes fs node)"
proof -
  have top: "map node_data (find_child_file_nodes fs (TreeNode l (node_data node) (node_children node)))
     = map node_data (find_child_file_nodes fs node)" for l
    by (cases node) simp
  have "map node_data (find_child_file_nodes fs (relabel_file_nodes fs mark
          (TreeNode l (node_data node) (node_children node))))
     = map node_data (find_child_file_nodes fs node)" for mark l
    using find_relabel [of fs mark "TreeNode l (node_data node) (node_children node)"] top
    by simp
  then show ?thesis
    by (simp add: toggle_directory_selection_def Let_def split: option.splits)
qed

lemma found_nodes_have_data:
  "n \<in> set (find_child_file_nodes fs node) \<Longrightarrow> node_data n \<noteq> None"
proof (induction node)
  case (TreeNode l d cs)
  from TreeNode.prems obtain c where c: "c \<in> set cs"
    and n: "n \<in> set (case node_data c of None \<Rightarrow> []
          | Some p \<Rightarrow> if \<not> is_dir fs p then [c] else find_child_file_nodes fs c)"
    by auto
  show ?case
  proof (cases "node_data c")
    case None
    with n show ?thesis by simp
  next
    case (Some p)
    show ?thesis
    proof (cases "is_dir fs p")
      case True
      with Some n TreeNode.IH [OF c] show ?thesis by simp
    next
      case False
      with Some n show ?thesis by simp
    qed
  qed
qed

lemma paths_nonempty:
  assumes "find_child_file_nodes fs node \<noteq> []"
  shows "set (child_file_paths fs node) \<noteq> {}"
proof -
  from assms obtain n where n: "n \<in> set (find_child_file_nodes fs node)"
    by (cases "find_child_file_nodes fs node") auto
  then obtain p where "node_data n = Some p"
    using found_nodes_have_data [OF n] by auto
  with n have "p \<in> set (child_file_paths fs node)"
    by (force simp: child_file_paths_def map_filter_def image_iff)
  then show ?thesis by auto
qed

lemma paths_after_toggle:
  "child_file_paths fs (snd (snd (toggle_directory_selection fs S node)))
   = child_file_paths fs node"
proof -
  have mf: "List.map_filter node_data ns = List.map_filter id (map node_data ns)"
    for ns :: "tree_node list"
    by (simp add: map_filter_def filter_map o_def)
  show ?thesis
    unfolding child_file_paths_def mf find_after_toggle ..
qed

lemma find_nonempty_after_toggle:
  assumes "find_child_file_nodes fs node \<noteq> []"
  shows "find_child_file_nodes fs (snd (snd (toggle_directory_selection fs S node))) \<noteq> []"
proof
  assume "find_child_file_nodes fs (snd (snd (toggle_directory_selection fs S node))) = []"
  then have "map node_data (find_child_file_nodes fs node) = []"
    using find_after_toggle [of fs S node] by simp
  with assms show False by simp
qed

text \<open>
  Claim C6, as amended. For every selection set \<open>S\<close> and every directory node with at
  least one file in its subtree, one toggle removes all the files of the subtree from
  \<open>S\<close> when all of them are selected, and adds all of them otherwise. Two toggles in
  succession give \<open>S\<close> back when the subtree was fully selected or fully unselected;
  from a partly selected subtree they leave none of its files selected.
\<close>

theorem toggle_directory_all_or_nothing:
  assumes "find_child_file_nodes fs node \<noteq> []"
  shows "fst (snd (toggle_directory_selection fs S node)) =
           (if set (child_file_paths fs node) \<subseteq> S then S - set (child_file_paths fs node)
            else S \<union> set (child_file_paths fs node))
         \<and> fst (snd (toggle_directory_twice fs S node)) =
           (if set (child_file_paths fs node) \<subseteq> S \<or> set (child_file_paths fs node) \<inter> S = {}
            then S else S - set (child_file_paths fs node))"
proof -
  define F where "F = set (child_file_paths fs node)"
  define S1 where "S1 = fst (snd (toggle_directory_selection fs S node))"
  define n1 where "n1 = snd (snd (toggle_directory_selection fs S node))"
  have one: "S1 = (if F \<subseteq> S then S - F else S \<union> F)"
    unfolding S1_def F_def by (rule toggle_queued [OF assms])
  have ne: "F \<noteq> {}"
    unfolding F_def by (rule paths_nonempty [OF assms])
  have F1: "set (child_file_paths fs n1) = F"
    unfolding n1_def F_def by (simp add: paths_after_toggle)
  have "find_child_file_nodes fs n1 \<noteq> []"
    unfolding n1_def by (rule find_nonempty_after_toggle [OF assms])
  then have two: "fst (snd (toggle_directory_selection fs S1 n1)) =
      (if F \<subseteq> S1 then S1 - F else S1 \<union> F)"
    using toggle_queued [of fs n1 S1] F1 by simp
  have twice: "fst (snd (toggle_directory_twice fs S node))
      = fst (snd (toggle_directory_selection fs S1 n1))"
    by (simp add: toggle_directory_twice_def S1_def n1_def split: prod.splits)
  have "fst (snd (toggle_directory_twice fs S node)) =
      (if F \<subseteq> S1 then S1 - F else S1 \<union> F)"
    using twice two by simp
  with one ne have "fst (snd (toggle_directory_twice fs S node)) =
      (if F \<subseteq> S \<or> F \<inter> S = {} then S else S - F)"
    by auto
  with one show ?thesis
    unfolding S1_def F_def by simp
qed

theorem toggle_directory_all_or_nothing_witness:
  "find_child_file_nodes Map.empty
     (TreeNode (Hollow ''d'') (Some [])
        [TreeNode (Hollow ''a.md'') (Some [''d'', ''a.md'']) [],
         TreeNode (Hollow ''b.md'') (Some [''d'', ''b.md'']) []]) \<noteq> []
   \<and> fst (snd (toggle_directory_selection Map.empty {[''x.md'']}
        (TreeNode (Hollow ''d'') (Some [])
          [TreeNode (Hollow ''a.md'') (Some [''d'', ''a.md'']) [],
           TreeNode (Hollow ''b.md'') (Some [''d'', ''b.md'']) []])))
       = {[''x.md''], [''d'', ''a.md''], [''d'', ''b.md'']}
   \<and> fst (snd (toggle_directory_twice Map.empty {[''x.md'']}
        (TreeNode (Hollow ''d'') (Some [])
          [TreeNode (Hollow ''a.md'') (Some [''d'', ''a.md'']) [],
           TreeNode (Hollow ''b.md'') (Some [''d'', ''b.md'']) []])))
       = {[''x.md'']}"
  using toggle_directory_all_or_nothing
    [of Map.empty "TreeNode (Hollow ''d'') (Some [])
          [TreeNode (Hollow ''a.md'') (Some [''d'', ''a.md'']) [],
           TreeNode (Hollow ''b.md'') (Some [''d'', ''b.md'']) []]" "{[''x.md'']}"]
  by (auto simp: child_file_paths_def map_filter_def is_dir_def)

text \<open>
  The claim as stated fails on a partly selected subtree: with \<open>a.md\<close> selected and
  \<open>b.md\<close> not, two toggles of the directory leave nothing selected.
\<close>

theorem toggle_directory_twice_counterexample:
  "find_child_file_nodes Map.empty
     (TreeNode (Hollow ''d'') (Some [])
        [TreeNode (Filled ''a.md'') (Some [''d'', ''a.md'']) [],
         TreeNode (Hollow ''b.md'') (Some [''d'', ''b.md'']) []]) \<noteq> []
   \<and> fst (snd (toggle_directory_twice Map.empty {[''d'', ''a.md'']}
        (TreeNode (Hollow ''d'') (Some [])
          [TreeNode (Filled ''a.md'') (Some [''d'', ''a.md'']) [],
           TreeNode (Hollow ''b.md'') (Some [''d'', ''b.md'']) []]))) = {}
   \<and> fst (snd (toggle_directory_twice Map.empty {[''d'', ''a.md'']}
        (TreeNode (Hollow ''d'') (Some [])
          [TreeNode (Filled ''a.md'') (Some [''d'', ''a.md'']) [],
           TreeNode (Hollow ''b.md'') (Some [''d'', ''b.md'']) []]))) \<noteq> {[''d'', ''a.md'']}"
  by (auto simp: toggle_directory_twice_def toggle_directory_selection_def
        child_file_paths_def map_filter_def is_dir_def path_name_def)

section \<open>Properties of find-or-append\<close>

lemma map_of_dict_set:
  "map_of (dict_set d k v) k' = (if k' = k then Some v else map_of d k')"
  by (induction d) auto

lemma py_get_dict_set:
  "py_get (JDict (dict_set d k v)) k' = (if k' = k then Inr v else py_get (JDict d) k')"
  by (simp add: py_get_def map_of_dict_set)

lemma has_uuid_dict_set:
  "k \<noteq> ''uuid'' \<Longrightarrow> has_uuid u (JDict (dict_set d k v)) = has_uuid u (JDict d)"
  by (simp add: has_uuid_def py_get_dict_set)

lemma identifiers_Cons:
  "identifiers (item # rest) =
     (case py_get item ''uuid'' of Inr (JStr s) \<Rightarrow> s # identifiers rest | _ \<Rightarrow> identifiers rest)"
  by (simp add: identifiers_def map_filter_def split: sum.splits jval.splits)

lemma identifiers_append:
  "identifiers (xs @ ys) = identifiers xs @ identifiers ys"
  by (simp add: identifiers_def map_filter_def)

lemma has_uuid_identifiers:
  "list_ex (has_uuid u) index_data \<longleftrightarrow> u \<in> set (identifiers index_data)"
  by (induction index_data)
     (auto simp: identifiers_Cons has_uuid_def identifiers_def map_filter_def split: sum.splits jval.splits)

lemma arweave_append_new:
  "list_all is_dict idx \<Longrightarrow> \<not> list_ex (has_uuid u) idx \<Longrightarrow>
   arweave_find_or_append u t e idx =
     Inr (idx @ [JDict [(''uuid'', JStr u), (''title'', JStr t), (''arweave_hashes'', JList [e])]])"
proof (induction idx)
  case Nil
  then show ?case by simp
next
  case (Cons item rest)
  from Cons.prems obtain v where v: "py_get item ''uuid'' = Inr v"
    using py_get_dict [of item "''uuid''"] by auto
  with Cons.prems have "v \<noteq> JStr u" by (auto simp: has_uuid_def)
  with v Cons show ?case by simp
qed

lemma arweave_update_found:
  assumes "list_all is_dict pre" "\<not> list_ex (has_uuid u) pre" "has_uuid u r"
    and "py_get r ''arweave_hashes'' = Inr (JList h)"
  shows "\<exists>r'. arweave_find_or_append u t e (pre @ r # post) = Inr (pre @ r' # post)
           \<and> is_dict r' \<and> has_uuid u r'
           \<and> py_get r' ''arweave_hashes'' = Inr (JList (h @ [e]))
           \<and> py_get r' ''title'' = Inr (JStr t)
           \<and> (\<forall>k. k \<noteq> ''arweave_hashes'' \<and> k \<noteq> ''title'' \<longrightarrow> py_get r' k = py_get r k)"
  using assms
proof (induction pre)
  case Nil
  then obtain d where d: "r = JDict d"
    by (cases r) (auto simp: has_uuid_def py_get_def)
  from Nil d have m: "map_of d ''arweave_hashes'' = Some (JList h)"
    by (auto simp: py_get_def split: option.splits)
  from Nil d have u: "py_get (JDict d) ''uuid'' = Inr (JStr u)"
    by (simp add: has_uuid_def)
  show ?case
    using m u unfolding d
    by (simp add: Let_def py_get_dict_set has_uuid_def map_of_dict_set)
next
  case (Cons item rest)
  from Cons.prems obtain v where v: "py_get item ''uuid'' = Inr v"
    using py_get_dict [of item "''uuid''"] by auto
  with Cons.prems have ne: "v \<noteq> JStr u" by (auto simp: has_uuid_def)
  from Cons obtain r' where "arweave_find_or_append u t e (rest @ r # post) = Inr (rest @ r' # post)
           \<and> is_dict r' \<and> has_uuid u r'
           \<and> py_get r' ''arweave_hashes'' = Inr (JList (h @ [e]))
           \<and> py_get r' ''title'' = Inr (JStr t)
           \<and> (\<forall>k. k \<noteq> ''arweave_hashes'' \<and> k \<noteq> ''title'' \<longrightarrow> py_get r' k = py_get r k)"
    by auto
  with v ne show ?case by auto
qed


lemma atproto_append_new:
  "list_all is_dict idx \<Longrightarrow> \<not> list_ex (has_uuid u) idx \<Longrightarrow>
   atproto_find_or_append u t url ts idx =
     Inr (idx @ [JDict [(''uuid'', JStr u), (''title'', JStr t),
                        (''url'', JStr url), (''posted_at'', JStr ts)]])"
proof (induction idx)
  case Nil
  then show ?case by simp
next
  case (Cons item rest)
  from Cons.prems obtain v where v: "py_get item ''uuid'' = Inr v"
    using py_get_dict [of item "''uuid''"] by auto
  with Cons.prems have "v \<noteq> JStr u" by (auto simp: has_uuid_def)
  with v Cons show ?case by simp
qed

lemma atproto_update_found:
  assumes "list_all is_dict pre" "\<not> list_ex (has_uuid u) pre" "has_uuid u r"
  shows "\<exists>r'. atproto_find_or_append u t url ts (pre @ r # post) = Inr (pre @ r' # post)
           \<and> is_dict r' \<and> has_uuid u r'
           \<and> py_get r' ''url'' = Inr (JStr url)
           \<and> py_get r' ''posted_at'' = Inr (JStr ts)
           \<and> py_get r' ''title'' = Inr (JStr t)
           \<and> (\<forall>k. k \<noteq> ''url'' \<and> k \<noteq> ''posted_at'' \<and> k \<noteq> ''title''
                  \<longrightarrow> py_get r' k = py_get r k)"
  using assms
proof (induction pre)
  case Nil
  then obtain d where d: "r = JDict d"
    by (cases r) (auto simp: has_uuid_def py_get_def)
  from Nil d have u: "py_get (JDict d) ''uuid'' = Inr (JStr u)"
    by (simp add: has_uuid_def)
  show ?case
    using u unfolding d
    by (simp add: Let_def py_get_dict_set has_uuid_def)
next
  case (Cons item rest)
  from Cons.prems obtain v where v: "py_get item ''uuid'' = Inr v"
    using py_get_dict [of item "''uuid''"] by auto
  with Cons.prems have ne: "v \<noteq> JStr u" by (auto simp: has_uuid_def)
  from Cons obtain r' where "atproto_find_or_append u t url ts (rest @ r # post) = Inr (rest @ r' # post)
           \<and> is_dict r' \<and> has_uuid u r'
           \<and> py_get r' ''url'' = Inr (JStr url)
           \<and> py_get r' ''posted_at'' = Inr (JStr ts)
           \<and> py_get r' ''title'' = Inr (JStr t)
           \<and> (\<forall>k. k \<noteq> ''url'' \<and> k \<noteq> ''posted_at'' \<and> k \<noteq> ''title''
                  \<longrightarrow> py_get r' k = py_get r k)"
    by auto
  with v ne show ?case by auto
qed

lemma arweave_identifiers:
  "arweave_find_or_append u t e idx = Inr idx' \<Longrightarrow>
   identifiers idx' = (if u \<in> set (identifiers idx) then identifiers idx else identifiers idx @ [u])"
proof (induction idx arbitrary: idx')
  case Nil
  then show ?case by (auto simp: identifiers_Cons py_get_def identifiers_def map_filter_def)
next
  case (Cons item rest)
  from Cons.prems obtain v where v: "py_get item ''uuid'' = Inr v"
    by (auto split: sum.splits)
  show ?case
  proof (cases "v = JStr u")
    case True
    with v Cons.prems obtain d where d: "item = JDict d"
      by (cases item) (auto simp: py_get_def)
    from v True d have u: "py_get (JDict d) ''uuid'' = Inr (JStr u)" by simp
    from Cons.prems v True d obtain d' where
      idx': "idx' = JDict d' # rest" and "py_get (JDict d') ''uuid'' = py_get (JDict d) ''uuid''"
      by (auto simp: Let_def py_get_dict_set split: option.splits jval.splits)
    with u d show ?thesis by (simp add: identifiers_Cons)
  next
    case False
    with v Cons.prems obtain rest' where
      r: "arweave_find_or_append u t e rest = Inr rest'" and idx': "idx' = item # rest'"
      by (auto split: sum.splits)
    from Cons.IH [OF r] v False idx' show ?thesis
      by (auto simp: identifiers_Cons split: jval.splits)
  qed
qed

lemma atproto_identifiers:
  "atproto_find_or_append u t url ts idx = Inr idx' \<Longrightarrow>
   identifiers idx' = (if u \<in> set (identifiers idx) then identifiers idx else identifiers idx @ [u])"
proof (induction idx arbitrary: idx')
  case Nil
  then show ?case by (auto simp: identifiers_Cons py_get_def identifiers_def map_filter_def)
next
  case (Cons item rest)
  from Cons.prems obtain v where v: "py_get item ''uuid'' = Inr v"
    by (auto split: sum.splits)
  show ?case
  proof (cases "v = JStr u")
    case True
    with v Cons.prems obtain d where d: "item = JDict d"
      by (cases item) (auto simp: py_get_def)
    from v True d have u: "py_get (JDict d) ''uuid'' = Inr (JStr u)" by simp
    from Cons.prems v True d obtain d' where
      idx': "idx' = JDict d' # rest" and "py_get (JDict d') ''uuid'' = py_get (JDict d) ''uuid''"
      by (auto simp: Let_def py_get_dict_set)
    with u d show ?thesis by (simp add: identifiers_Cons)
  next
    case False
    with v Cons.prems obtain rest' where
      r: "atproto_find_or_append u t url ts rest = Inr rest'" and idx': "idx' = item # rest'"
      by (auto split: sum.splits)
    from Cons.IH [OF r] v False idx' show ?thesis
      by (auto simp: identifiers_Cons split: jval.splits)
  qed
qed

text \<open>
  Claim C3. Recording a publish result for the identifier \<open>u\<close> never adds a second
  record for \<open>u\<close>: the identifiers of the index stay as they are when \<open>u\<close> is among
  them and gain \<open>u\<close> at the end otherwise, so unique identifiers stay unique. On an index
  of records, when no record carries \<open>u\<close> one new record is appended; otherwise the first
  record that carries \<open>u\<close> is updated in place and every other record is untouched. In
  the historied variant the update puts the new entry at the end of the record's history
  \<open>h\<close> (which becomes \<open>h @ [e]\<close>); in the single-slot variant it overwrites the
  locator \<open>url\<close> and \<open>posted_at\<close>. Both set the title and leave the other fields.
\<close>

theorem find_or_append_unique:
  "(arweave_find_or_append u t e idx = Inr idx' \<longrightarrow>
      identifiers idx' = (if u \<in> set (identifiers idx) then identifiers idx
                          else identifiers idx @ [u])
      \<and> (distinct (identifiers idx) \<longrightarrow> distinct (identifiers idx')))
   \<and> (atproto_find_or_append u t url ts idx = Inr idx'' \<longrightarrow>
      identifiers idx'' = (if u \<in> set (identifiers idx) then identifiers idx
                           else identifiers idx @ [u])
      \<and> (distinct (identifiers idx) \<longrightarrow> distinct (identifiers idx'')))
   \<and> (list_all is_dict idx \<and> \<not> list_ex (has_uuid u) idx \<longrightarrow>
      arweave_find_or_append u t e idx =
        Inr (idx @ [JDict [(''uuid'', JStr u), (''title'', JStr t),
                           (''arweave_hashes'', JList [e])]])
      \<and> atproto_find_or_append u t url ts idx =
        Inr (idx @ [JDict [(''uuid'', JStr u), (''title'', JStr t),
                           (''url'', JStr url), (''posted_at'', JStr ts)]]))
   \<and> (list_all is_dict pre \<and> \<not> list_ex (has_uuid u) pre \<and> has_uuid u r
       \<and> py_get r ''arweave_hashes'' = Inr (JList h) \<longrightarrow>
      (\<exists>r'. arweave_find_or_append u t e (pre @ r # post) = Inr (pre @ r' # post)
           \<and> is_dict r' \<and> has_uuid u r'
           \<and> py_get r' ''arweave_hashes'' = Inr (JList (h @ [e]))
           \<and> py_get r' ''title'' = Inr (JStr t)
           \<and> (\<forall>k. k \<noteq> ''arweave_hashes'' \<and> k \<noteq> ''title'' \<longrightarrow> py_get r' k = py_get r k)))
   \<and> (list_all is_dict pre \<and> \<not> list_ex (has_uuid u) pre \<and> has_uuid u r \<longrightarrow>
      (\<exists>r'. atproto_find_or_append u t url ts (pre @ r # post) = Inr (pre @ r' # post)
           \<and> is_dict r' \<and> has_uuid u r'
           \<and> py_get r' ''url'' = Inr (JStr url)
           \<and> py_get r' ''posted_at'' = Inr (JStr ts)
           \<and> py_get r' ''title'' = Inr (JStr t)
           \<and> (\<forall>k. k \<noteq> ''url'' \<and> k \<noteq> ''posted_at'' \<and> k \<noteq> ''title''
                  \<longrightarrow> py_get r' k = py_get r k)))"
proof (intro conjI impI)
  assume a: "arweave_find_or_append u t e idx = Inr idx'"
  show "identifiers idx' = (if u \<in> set (identifiers idx) then identifiers idx
                            else identifiers idx @ [u])"
    by (rule arweave_identifiers [OF a])
  assume "distinct (identifiers idx)"
  then show "distinct (identifiers idx')"
    by (simp add: arweave_identifiers [OF a])
next
  assume a: "atproto_find_or_append u t url ts idx = Inr idx''"
  show "identifiers idx'' = (if u \<in> set (identifiers idx) then identifiers idx
                            else identifiers idx @ [u])"
    by (rule atproto_identifiers [OF a])
  assume "distinct (identifiers idx)"
  then show "distinct (identifiers idx'')"
    by (simp add: atproto_identifiers [OF a])
next
  assume "list_all is_dict idx \<and> \<not> list_ex (has_uuid u) idx"
  then show "arweave_find_or_append u t e idx =
        Inr (idx @ [JDict [(''uuid'', JStr u), (''title'', JStr t),
                           (''arweave_hashes'', JList [e])]])"
    by (simp add: arweave_append_new)
next
  assume "list_all is_dict idx \<and> \<not> list_ex (has_uuid u) idx"
  then show "atproto_find_or_append u t url ts idx =
        Inr (idx @ [JDict [(''uuid'', JStr u), (''title'', JStr t),
                           (''url'', JStr url), (''posted_at'', JStr ts)]])"
    by (simp add: atproto_append_new)
next
  assume "list_all is_dict pre \<and> \<not> list_ex (has_uuid u) pre \<and> has_uuid u r
       \<and> py_get r ''arweave_hashes'' = Inr (JList h)"
  then show "\<exists>r'. arweave_find_or_append u t e (pre @ r # post) = Inr (pre @ r' # post)
           \<and> is_dict r' \<and> has_uuid u r'
           \<and> py_get r' ''arweave_hashes'' = Inr (JList (h @ [e]))
           \<and> py_get r' ''title'' = Inr (JStr t)
           \<and> (\<forall>k. k \<noteq> ''arweave_hashes'' \<and> k \<noteq> ''title'' \<longrightarrow> py_get r' k = py_get r k)"
    using arweave_update_found [of pre u r h t e post] by blast
next
  assume "list_all is_dict pre \<and> \<not> list_ex (has_uuid u) pre \<and> has_uuid u r"
  then show "\<exists>r'. atproto_find_or_append u t url ts (pre @ r # post) = Inr (pre @ r' # post)
           \<and> is_dict r' \<and> has_uuid u r'
           \<and> py_get r' ''url'' = Inr (JStr url)
           \<and> py_get r' ''posted_at'' = Inr (JStr ts)
           \<and> py_get r' ''title'' = Inr (JStr t)
           \<and> (\<forall>k. k \<noteq> ''url'' \<and> k \<noteq> ''posted_at'' \<and> k \<noteq> ''title''
                  \<longrightarrow> py_get r' k = py_get r k)"
    using atproto_update_found [of pre u r t url ts post] by blast
qed


theorem find_or_append_unique_witness:
  "list_all is_dict [JDict [(''uuid'', JStr ''xyz'')]]
   \<and> \<not> list_ex (has_uuid ''abc'') [JDict [(''uuid'', JStr ''xyz'')]]
   \<and> has_uuid ''abc''
        (JDict [(''uuid'', JStr ''abc''), (''title'', JStr ''T''),
                (''arweave_hashes'', JList [arweave_hash_entry ''h1'' ''2024-01-01'']),
                (''url'', JStr ''at://old''), (''posted_at'', JStr ''2024-01-01'')])
   \<and> distinct (identifiers
        [JDict [(''uuid'', JStr ''xyz'')],
         JDict [(''uuid'', JStr ''abc''), (''title'', JStr ''T''),
                (''arweave_hashes'', JList [arweave_hash_entry ''h1'' ''2024-01-01'']),
                (''url'', JStr ''at://old''), (''posted_at'', JStr ''2024-01-01'')]])
   \<and> arweave_find_or_append ''abc'' ''T2'' (arweave_hash_entry ''h2'' ''2024-01-02'')
        ([JDict [(''uuid'', JStr ''xyz'')]]
         @ JDict [(''uuid'', JStr ''abc''), (''title'', JStr ''T''),
                  (''arweave_hashes'', JList [arweave_hash_entry ''h1'' ''2024-01-01'']),
                  (''url'', JStr ''at://old''), (''posted_at'', JStr ''2024-01-01'')] # [])
       = Inr [JDict [(''uuid'', JStr ''xyz'')],
              JDict [(''uuid'', JStr ''abc''), (''title'', JStr ''T2''),
                     (''arweave_hashes'',
                      JList [arweave_hash_entry ''h1'' ''2024-01-01'',
                             arweave_hash_entry ''h2'' ''2024-01-02'']),
                     (''url'', JStr ''at://old''), (''posted_at'', JStr ''2024-01-01'')]]
   \<and> atproto_find_or_append ''abc'' ''T2'' ''at://new'' ''2024-01-02''
        ([JDict [(''uuid'', JStr ''xyz'')]]
         @ JDict [(''uuid'', JStr ''abc''), (''title'', JStr ''T''),
                  (''arweave_hashes'', JList [arweave_hash_entry ''h1'' ''2024-01-01'']),
                  (''url'', JStr ''at://old''), (''posted_at'', JStr ''2024-01-01'')] # [])
       = Inr [JDict [(''uuid'', JStr ''xyz'')],
              JDict [(''uuid'', JStr ''abc''), (''title'', JStr ''T2''),
                     (''arweave_hashes'', JList [arweave_hash_entry ''h1'' ''2024-01-01'']),
                     (''url'', JStr ''at://new''), (''posted_at'', JStr ''2024-01-02'')]]
   \<and> arweave_find_or_append ''abc'' ''T2'' (arweave_hash_entry ''h2'' ''2024-01-02'')
        [JDict [(''uuid'', JStr ''xyz'')]]
       = Inr [JDict [(''uuid'', JStr ''xyz'')],
              JDict [(''uuid'', JStr ''abc''), (''title'', JStr ''T2''),
                     (''arweave_hashes'', JList [arweave_hash_entry ''h2'' ''2024-01-02''])]]
   \<and> identifiers
        [JDict [(''uuid'', JStr ''xyz'')],
         JDict [(''uuid'', JStr ''abc''), (''title'', JStr ''T2''),
                (''arweave_hashes'', JList [arweave_hash_entry ''h2'' ''2024-01-02''])]]
       = [''xyz'', ''abc'']"
  using find_or_append_unique
    [where u = "''abc''" and t = "''T2''" and e = "arweave_hash_entry ''h2'' ''2024-01-02''"
       and url = "''at://new''" and ts = "''2024-01-02''"
       and idx = "[JDict [(''uuid'', JStr ''xyz'')]]"
       and idx' = "[JDict [(''uuid'', JStr ''xyz'')],
              JDict [(''uuid'', JStr ''abc''), (''title'', JStr ''T2''),
                     (''arweave_hashes'', JList [arweave_hash_entry ''h2'' ''2024-01-02''])]]"
       and pre = "[JDict [(''uuid'', JStr ''xyz'')]]"
       and r = "JDict [(''uuid'', JStr ''abc''), (''title'', JStr ''T''),
                  (''arweave_hashes'', JList [arweave_hash_entry ''h1'' ''2024-01-01'']),
                  (''url'', JStr ''at://old''), (''posted_at'', JStr ''2024-01-01'')]"
       and h = "[arweave_hash_entry ''h1'' ''2024-01-01'']" and post = "[]"]
  by (simp add: has_uuid_def py_get_def identifiers_def map_filter_def)

section \<open>Properties of the balance probe\<close>

lemma py_strip_id:
  assumes "s \<noteq> []" "\<not> is_space (hd s)" "\<not> is_space (last s)"
  shows "py_strip s = s"
proof -
  from assms have a: "dropWhile is_space s = s" by (cases s) auto
  from assms have "rev s \<noteq> []" "\<not> is_space (hd (rev s))" by (auto simp: hd_rev)
  then have "dropWhile is_space (rev s) = rev s" by (cases "rev s") auto
  with a show ?thesis by (simp add: py_strip_def)
qed

lemma digits_not_space: "is_digit c \<Longrightarrow> \<not> is_space c"
  by (auto simp: is_digit_def is_space_def Let_def)

lemma match_balance_plain:
  assumes "ip \<noteq> []" "fp \<noteq> []" "list_all is_digit ip" "list_all is_digit fp"
  shows "match_balance (''AR '' @ ip @ ''.'' @ fp) = Some (ip, fp)"
proof -
  have sp: "is_space (CHR '' '')" by (simp add: is_space_def)
  from assms obtain d ds where ip: "ip = d # ds" by (cases ip) auto
  with assms have d: "\<not> is_space d" by (simp add: digits_not_space)
  have nd: "\<not> is_digit (CHR ''.'')" by (simp add: is_digit_def)
  define r where "r = ip @ CHR ''.'' # fp"
  have t1: "takeWhile is_digit r = ip"
    using assms nd by (simp add: r_def takeWhile_append2 list_all_iff)
  have t2: "dropWhile is_digit r = CHR ''.'' # fp"
    using assms nd by (simp add: r_def dropWhile_append2 list_all_iff)
  have t3: "takeWhile is_digit fp = fp"
    using assms by (simp add: list_all_iff)
  have "r \<noteq> []" "\<not> is_space (hd r)" using d ip by (auto simp: r_def)
  then have dw: "dropWhile is_space (CHR '' '' # r) = r"
    using sp by (cases r) auto
  have tw: "takeWhile is_space (CHR '' '' # r) \<noteq> []"
    using sp by simp
  have "match_balance (''AR'' @ CHR '' '' # r) = Some (ip, fp)"
    using assms(1,2) tw unfolding match_balance_def
    by (simp add: Let_def dw t1 t2 t3 del: dropWhile.simps takeWhile.simps)
  then show ?thesis by (simp add: r_def)
qed

text \<open>
  The balance probe raises only when the search for the wallet does. When no wallet path
  is resolved it returns 0 with the message that the wallet path was not found, and runs
  nothing. Otherwise it runs the balance command, and returns 0 with a message of its own
  for each failure: the executable is missing; another exception; a return code other
  than 0 (with the code and the stripped error output); an output in which the pattern
  finds no balance. On success it returns the number whose digits the pattern finds in
  the output, as for the output \<open>AR 12.5\<close>, and logs no error.
\<close>

lemma get_wallet_balance_cases:
  "((\<exists>err. fst (get_wallet_balance e wallet_path w) = Inl err)
     = (wallet_path = None \<and> (\<exists>err. find_wallet_path e (w_fs w) = Inl err)))
   \<and> ((case wallet_path of None \<Rightarrow> find_wallet_path e (w_fs w) | Some x \<Rightarrow> Inr (Some x)) = Inr None
       \<or> (case wallet_path of None \<Rightarrow> find_wallet_path e (w_fs w) | Some x \<Rightarrow> Inr (Some x)) = Inr (Some [])
       \<longrightarrow> get_wallet_balance e wallet_path w
           = (Inr (PyFloat ''0'' ''0'', [''Cannot get balance: Arweave wallet path not found.'']), w))
   \<and> ((case wallet_path of None \<Rightarrow> find_wallet_path e (w_fs w) | Some x \<Rightarrow> Inr (Some x)) = Inr (Some p)
       \<and> p \<noteq> [] \<longrightarrow>
       (run_process e (w_calls w) [''arkb'', ''balance'', ''--wallet'', p] = ExecNotFound msg \<longrightarrow>
          fst (get_wallet_balance e wallet_path w)
            = Inr (PyFloat ''0'' ''0'',
                   [[CHR 0x27] @ ''arkb'' @ [CHR 0x27]
                    @ '' command not found. Please ensure Arweave Wallet Kit is installed and in PATH.'']))
       \<and> (run_process e (w_calls w) [''arkb'', ''balance'', ''--wallet'', p] = ExecError msg \<longrightarrow>
          fst (get_wallet_balance e wallet_path w)
            = Inr (PyFloat ''0'' ''0'', [''Error checking wallet balance: '' @ msg]))
       \<and> (run_process e (w_calls w) [''arkb'', ''balance'', ''--wallet'', p] = Exited rc out err
          \<and> rc \<noteq> 0 \<longrightarrow>
          fst (get_wallet_balance e wallet_path w)
            = Inr (PyFloat ''0'' ''0'',
                   [[CHR 0x27] @ ''arkb balance'' @ [CHR 0x27] @ '' failed (code ''
                    @ show_int rc @ ''): '' @ py_strip err]))
       \<and> (run_process e (w_calls w) [''arkb'', ''balance'', ''--wallet'', p] = Exited 0 out err
          \<and> search_from match_balance (py_strip out) = None \<longrightarrow>
          fst (get_wallet_balance e wallet_path w)
            = Inr (PyFloat ''0'' ''0'',
                   [''Could not parse balance from '' @ [CHR 0x27] @ ''arkb balance''
                    @ [CHR 0x27] @ '' output: '' @ py_strip out]))
       \<and> (run_process e (w_calls w) [''arkb'', ''balance'', ''--wallet'', p] = Exited 0 out err
          \<and> search_from match_balance (py_strip out) = Some (ip, fp) \<longrightarrow>
          fst (get_wallet_balance e wallet_path w) = Inr (PyFloat ip fp, []))
       \<and> (run_process e (w_calls w) [''arkb'', ''balance'', ''--wallet'', p]
            = Exited 0 (''AR '' @ ip @ ''.'' @ fp) err
          \<and> ip \<noteq> [] \<and> fp \<noteq> [] \<and> list_all is_digit ip \<and> list_all is_digit fp \<longrightarrow>
          fst (get_wallet_balance e wallet_path w) = Inr (PyFloat ip fp, [])))"
proof (intro conjI impI)
  show "(\<exists>err. fst (get_wallet_balance e wallet_path w) = Inl err)
     = (wallet_path = None \<and> (\<exists>err. find_wallet_path e (w_fs w) = Inl err))"
    by (auto simp: get_wallet_balance_def get_wallet_balance_try_def run_cmd_def Let_def
          split: option.splits proc_outcome.splits sum.splits py_error.splits prod.splits)
next
  assume "(case wallet_path of None \<Rightarrow> find_wallet_path e (w_fs w) | Some x \<Rightarrow> Inr (Some x)) = Inr None
       \<or> (case wallet_path of None \<Rightarrow> find_wallet_path e (w_fs w) | Some x \<Rightarrow> Inr (Some x)) = Inr (Some [])"
  then show "get_wallet_balance e wallet_path w
           = (Inr (PyFloat ''0'' ''0'', [''Cannot get balance: Arweave wallet path not found.'']), w)"
    by (auto simp: get_wallet_balance_def)
next
  assume wp: "(case wallet_path of None \<Rightarrow> find_wallet_path e (w_fs w) | Some x \<Rightarrow> Inr (Some x)) = Inr (Some p)
       \<and> p \<noteq> []"
  assume "run_process e (w_calls w) [''arkb'', ''balance'', ''--wallet'', p] = ExecNotFound msg"
  with wp show "fst (get_wallet_balance e wallet_path w)
            = Inr (PyFloat ''0'' ''0'',
                   [[CHR 0x27] @ ''arkb'' @ [CHR 0x27]
                    @ '' command not found. Please ensure Arweave Wallet Kit is installed and in PATH.''])"
    by (simp add: get_wallet_balance_def get_wallet_balance_try_def run_cmd_def)
next
  assume wp: "(case wallet_path of None \<Rightarrow> find_wallet_path e (w_fs w) | Some x \<Rightarrow> Inr (Some x)) = Inr (Some p)
       \<and> p \<noteq> []"
  assume "run_process e (w_calls w) [''arkb'', ''balance'', ''--wallet'', p] = ExecError msg"
  with wp show "fst (get_wallet_balance e wallet_path w)
            = Inr (PyFloat ''0'' ''0'', [''Error checking wallet balance: '' @ msg])"
    by (simp add: get_wallet_balance_def get_wallet_balance_try_def run_cmd_def)
next
  assume wp: "(case wallet_path of None \<Rightarrow> find_wallet_path e (w_fs w) | Some x \<Rightarrow> Inr (Some x)) = Inr (Some p)
       \<and> p \<noteq> []"
  assume "run_process e (w_calls w) [''arkb'', ''balance'', ''--wallet'', p] = Exited rc out err
          \<and> rc \<noteq> 0"
  with wp show "fst (get_wallet_balance e wallet_path w)
            = Inr (PyFloat ''0'' ''0'',
                   [[CHR 0x27] @ ''arkb balance'' @ [CHR 0x27] @ '' failed (code ''
                    @ show_int rc @ ''): '' @ py_strip err])"
    by (simp add: get_wallet_balance_def get_wallet_balance_try_def run_cmd_def)
next
  assume wp: "(case wallet_path of None \<Rightarrow> find_wallet_path e (w_fs w) | Some x \<Rightarrow> Inr (Some x)) = Inr (Some p)
       \<and> p \<noteq> []"
  assume "run_process e (w_calls w) [''arkb'', ''balance'', ''--wallet'', p] = Exited 0 out err
          \<and> search_from match_balance (py_strip out) = None"
  with wp show "fst (get_wallet_balance e wallet_path w)
            = Inr (PyFloat ''0'' ''0'',
                   [''Could not parse balance from '' @ [CHR 0x27] @ ''arkb balance''
                    @ [CHR 0x27] @ '' output: '' @ py_strip out])"
    by (simp add: get_wallet_balance_def get_wallet_balance_try_def run_cmd_def)
next
  assume wp: "(case wallet_path of None \<Rightarrow> find_wallet_path e (w_fs w) | Some x \<Rightarrow> Inr (Some x)) = Inr (Some p)
       \<and> p \<noteq> []"
  assume "run_process e (w_calls w) [''arkb'', ''balance'', ''--wallet'', p] = Exited 0 out err
          \<and> search_from match_balance (py_strip out) = Some (ip, fp)"
  with wp show "fst (get_wallet_balance e wallet_path w) = Inr (PyFloat ip fp, [])"
    by (simp add: get_wallet_balance_def get_wallet_balance_try_def run_cmd_def)
next
  assume wp: "(case wallet_path of None \<Rightarrow> find_wallet_path e (w_fs w) | Some x \<Rightarrow> Inr (Some x)) = Inr (Some p)
       \<and> p \<noteq> []"
  assume h: "run_process e (w_calls w) [''arkb'', ''balance'', ''--wallet'', p]
            = Exited 0 (''AR '' @ ip @ ''.'' @ fp) err
          \<and> ip \<noteq> [] \<and> fp \<noteq> [] \<and> list_all is_digit ip \<and> list_all is_digit fp"
  then have "last (''AR '' @ ip @ ''.'' @ fp) = last fp" by simp
  moreover have "is_digit (last fp)" using h by (simp add: list_all_iff)
  ultimately have "\<not> is_space (last (''AR '' @ ip @ ''.'' @ fp))"
    by (simp add: digits_not_space)
  moreover have "\<not> is_space (hd (''AR '' @ ip @ ''.'' @ fp))" by (simp add: is_space_def)
  ultimately have st: "py_strip (''AR '' @ ip @ ''.'' @ fp) = ''AR '' @ ip @ ''.'' @ fp"
    by (intro py_strip_id) auto
  have "match_balance (''AR '' @ ip @ ''.'' @ fp) = Some (ip, fp)"
    using h by (intro match_balance_plain) auto
  then have "search_from match_balance (''AR '' @ ip @ ''.'' @ fp) = Some (ip, fp)"
    by simp
  with wp h st show "fst (get_wallet_balance e wallet_path w) = Inr (PyFloat ip fp, [])"
    by (simp add: get_wallet_balance_def get_wallet_balance_try_def run_cmd_def)
qed

text \<open>
  Claim C9. The balance probe should never raise. It does when it is called without a
  wallet path and the search for the wallet raises, since the search stands before the
  \<^verbatim>\<open>try\<close>: with the environment variable \<^verbatim>\<open>ARWEAVE_WALLET_PATH\<close> set to a name of 256
  characters, the existence test of that path raises \<^verbatim>\<open>OSError\<close> (file name too long),
  and so does the probe. Called with a wallet path in the same environment, where the
  command-line program is missing, it returns 0 and logs the cause.
\<close>

theorem get_wallet_balance_raises_on_wallet_search:
  "fst (get_wallet_balance
          (scenario_env [''ARWEAVE_WALLET_PATH'' \<mapsto> replicate 256 (CHR ''a'')]
             scenario_no_program scenario_parser)
          None (scenario_world Map.empty))
   = Inl OSError
   \<and> fst (get_wallet_balance
          (scenario_env [''ARWEAVE_WALLET_PATH'' \<mapsto> replicate 256 (CHR ''a'')]
             scenario_no_program scenario_parser)
          (Some ''wallet.json'') (scenario_world Map.empty))
   = Inr (PyFloat ''0'' ''0'',
          [[CHR 0x27] @ ''arkb'' @ [CHR 0x27]
           @ '' command not found. Please ensure Arweave Wallet Kit is installed and in PATH.''])"
  by code_simp

section \<open>The batch drivers\<close>

subsection \<open>One file of a batch\<close>



lemma upload_file_not_found:
  assumes nf: "\<forall>h c. run_process e h c = ExecNotFound msg"
    and tm: "\<not> arweave_test_mode e" and wp: "wp \<noteq> []"
    and ok: "has_identifier e (w_fs (u_world st)) f"
  shows "upload_file e cb idx (Some wp) st f =
     st\<lparr>u_results := results_set (u_results st) f None,
        u_world := notify cb (''Failed to upload '' @ path_name f @ '' to Arweave.'')
                     ((u_world st)\<lparr>w_calls := w_calls (u_world st)
                        @ [note_deploy_cmd e (w_fs (u_world st)) wp f]\<rparr>)\<rparr>"
  using assms
  by (auto simp: has_identifier_def note_deploy_cmd_def upload_file_def upload_file_try_def
        upload_to_arweave_def execute_arkb_deploy_def run_cmd_def Let_def
        split: sum.splits)

lemma post_file_not_found:
  assumes nf: "\<forall>h c. run_process e h c = ExecNotFound msg"
    and tm: "\<not> atproto_test_mode e" and ut: "user_text \<noteq> []"
  shows "post_file e cb idx (Some c) user_text st f =
     st\<lparr>p_results := results_set (p_results st) f None,
        p_world := notify cb (''Failed to post '' @ path_name f @ '' to AT Protocol.'')
                     (notify cb (''Cannot post: '' @ installation_guide)
                        ((p_world st)\<lparr>w_calls := w_calls (p_world st)
                           @ [[''bsky'', ''--version'']]\<rparr>))\<rparr>"
  using assms
  by (simp add: post_file_def post_file_try_def post_to_atproto_def post_to_atproto_try_def
        check_bsky_cli_installed_def run_cmd_def Let_def)

subsection \<open>A batch without the command-line program\<close>

lemma results_set_none:
  "\<forall>x \<in> set r. snd x = None \<Longrightarrow> \<forall>x \<in> set (results_set r f None). snd x = None"
  by (induction r f "None :: string option" rule: results_set.induct) auto

lemma all_failed_none_from:
  "\<forall>x \<in> set r. snd x = None
     \<Longrightarrow> \<forall>x \<in> set (foldl (\<lambda>d file_path. results_set d file_path None) r files). snd x = None"
proof (induction files arbitrary: r)
  case Nil
  then show ?case by simp
next
  case (Cons f files)
  have "\<forall>x \<in> set (results_set r f None). snd x = None"
    using Cons.prems by (rule results_set_none)
  from Cons.IH [OF this] show ?case by simp
qed

lemma count_succeeded_all_failed: "count_succeeded (all_failed files) = 0"
proof -
  have "\<forall>x \<in> set (all_failed files). snd x = None"
    unfolding all_failed_def by (rule all_failed_none_from) simp
  then have "filter (\<lambda>(k, v). case v of None \<Rightarrow> False | Some x \<Rightarrow> x \<noteq> [])
               (all_failed files) = []"
    by (auto simp: filter_empty_conv)
  then show ?thesis by (simp add: count_succeeded_def)
qed

lemma upload_loop_not_found:
  assumes nf: "\<forall>h c. run_process e h c = ExecNotFound msg"
    and tm: "\<not> arweave_test_mode e" and wp: "wp \<noteq> []"
  shows "\<forall>f \<in> set files. has_identifier e (w_fs (u_world st)) f \<Longrightarrow>
     foldl (upload_file e cb idx (Some wp)) st files =
     st\<lparr>u_results := foldl (\<lambda>d file_path. results_set d file_path None) (u_results st) files,
        u_world := (u_world st)
          \<lparr>w_calls := w_calls (u_world st)
                        @ map (note_deploy_cmd e (w_fs (u_world st)) wp) files,
           w_notes := w_notes (u_world st)
                        @ (if cb then map (\<lambda>f. ''Failed to upload '' @ path_name f
                                                  @ '' to Arweave.'') files
                           else [])\<rparr>\<rparr>"
proof (induction files arbitrary: st)
  case Nil
  then show ?case by simp
next
  case (Cons f files)
  define st1 where "st1 = upload_file e cb idx (Some wp) st f"
  have step: "st1 =
     st\<lparr>u_results := results_set (u_results st) f None,
        u_world := notify cb (''Failed to upload '' @ path_name f @ '' to Arweave.'')
                     ((u_world st)\<lparr>w_calls := w_calls (u_world st)
                        @ [note_deploy_cmd e (w_fs (u_world st)) wp f]\<rparr>)\<rparr>"
    unfolding st1_def using Cons.prems by (intro upload_file_not_found [OF nf tm wp]) simp
  have fs1: "w_fs (u_world st1) = w_fs (u_world st)"
    by (simp add: step notify_def)
  have "\<forall>g \<in> set files. has_identifier e (w_fs (u_world st1)) g"
    using Cons.prems by (simp add: fs1)
  from Cons.IH [OF this]
  have "foldl (upload_file e cb idx (Some wp)) st1 files =
     st1\<lparr>u_results := foldl (\<lambda>d file_path. results_set d file_path None) (u_results st1) files,
        u_world := (u_world st1)
          \<lparr>w_calls := w_calls (u_world st1)
                        @ map (note_deploy_cmd e (w_fs (u_world st1)) wp) files,
           w_notes := w_notes (u_world st1)
                        @ (if cb then map (\<lambda>f. ''Failed to upload '' @ path_name f
                                                  @ '' to Arweave.'') files
                           else [])\<rparr>\<rparr>" .
  then show ?case
    unfolding foldl_Cons st1_def [symmetric]
    by (simp add: step notify_def)
qed

lemma post_loop_not_found:
  assumes nf: "\<forall>h c. run_process e h c = ExecNotFound msg"
    and tm: "\<not> atproto_test_mode e" and ut: "user_text \<noteq> []"
  shows "foldl (post_file e cb idx (Some c) user_text) st files =
     st\<lparr>p_results := foldl (\<lambda>d file_path. results_set d file_path None) (p_results st) files,
        p_world := (p_world st)
          \<lparr>w_calls := w_calls (p_world st) @ replicate (length files) [''bsky'', ''--version''],
           w_notes := w_notes (p_world st)
                        @ (if cb then concat (map (\<lambda>f. [''Cannot post: '' @ installation_guide,
                                                          ''Failed to post '' @ path_name f
                                                          @ '' to AT Protocol.'']) files)
                           else [])\<rparr>\<rparr>"
proof (induction files arbitrary: st)
  case Nil
  then show ?case by simp
next
  case (Cons f files)
  define st1 where "st1 = post_file e cb idx (Some c) user_text st f"
  have step: "st1 =
     st\<lparr>p_results := results_set (p_results st) f None,
        p_world := notify cb (''Failed to post '' @ path_name f @ '' to AT Protocol.'')
                     (notify cb (''Cannot post: '' @ installation_guide)
                        ((p_world st)\<lparr>w_calls := w_calls (p_world st)
                           @ [[''bsky'', ''--version'']]\<rparr>))\<rparr>"
    unfolding st1_def by (rule post_file_not_found [OF nf tm ut])
  have rep: "[''bsky'', ''--version''] # replicate (length files) [''bsky'', ''--version'']
             = replicate (length files) [''bsky'', ''--version''] @ [[''bsky'', ''--version'']]"
    by (simp add: replicate_append_same)
  show ?case
    unfolding foldl_Cons st1_def [symmetric] Cons.IH [of st1]
    by (simp add: step notify_def)
qed

lemma upload_batch_not_found:
  assumes nf: "\<forall>h c. run_process e h c = ExecNotFound msg"
    and tm: "\<not> arweave_test_mode e"
    and wal: "find_wallet_path e (w_fs w) = Inr (Some wp)" and wp: "wp \<noteq> []"
    and ld: "load_arweave_index_try (w_fs w) idx = Inr records"
    and cp: "copy_all records = Inr copies"
    and ne: "files \<noteq> []"
    and ids: "\<forall>f \<in> set files. has_identifier e (w_fs w) f"
  shows "observe_batch (upload_files_to_arweave e files True idx w) =
     (Inr (all_failed files),
      w_calls w @ map (note_deploy_cmd e (w_fs w) wp) files,
      w_notes w
        @ [''Starting Arweave upload for '' @ show_nat (length files) @ '' files...'']
        @ map (\<lambda>f. ''Failed to upload '' @ path_name f @ '' to Arweave.'') files
        @ [''Arweave upload finished: 0 succeeded, '' @ show_int (int (length files))
           @ '' failed.''])"
proof -
  define w1 where "w1 = notify True (''Starting Arweave upload for ''
                          @ show_nat (length files) @ '' files...'') w"
  define st0 where "st0 = \<lparr>u_world = w1, u_index = records, u_results = []\<rparr>"
  have w1_calls: "w_calls w1 = w_calls w" and w1_fs: "w_fs w1 = w_fs w"
    and w1_notes: "w_notes w1 = w_notes w @ [''Starting Arweave upload for ''
                          @ show_nat (length files) @ '' files...'']"
    by (simp_all add: w1_def notify_def)
  have fs0: "w_fs (u_world st0) = w_fs w" by (simp add: st0_def w1_fs)
  have "\<forall>f \<in> set files. has_identifier e (w_fs (u_world st0)) f"
    using ids by (simp add: fs0)
  note L = upload_loop_not_found [OF nf tm wp this, of True idx]
  have loop: "foldl (upload_file e True idx (Some wp)) st0 files =
     st0\<lparr>u_results := all_failed files,
        u_world := w1
          \<lparr>w_calls := w_calls w1 @ map (note_deploy_cmd e (w_fs w1) wp) files,
           w_notes := w_notes w1
                        @ map (\<lambda>f. ''Failed to upload '' @ path_name f @ '' to Arweave.'') files\<rparr>\<rparr>"
    unfolding L all_failed_def by (simp add: st0_def)
  have ld1: "load_arweave_index (w_fs w1) idx = Inr records"
    using ld by (simp add: w1_fs load_arweave_index_def)
  have zero: "show_nat 0 = ''0''" by code_simp
  show ?thesis
    unfolding upload_files_to_arweave_def Let_def wal observe_batch_def
      w1_def [symmetric] ld1 cp sum.case st0_def [symmetric] loop
    using ne wp
    by (simp add: count_succeeded_all_failed zero notify_def w1_calls w1_fs w1_notes st0_def)
qed

lemma post_batch_not_found:
  assumes nf: "\<forall>h c. run_process e h c = ExecNotFound msg"
    and tm: "\<not> atproto_test_mode e" and ut: "user_text \<noteq> []"
    and cr: "load_atproto_credentials e (w_fs w) = Some c"
    and ld: "load_atproto_posts_index (w_fs w) idx = Inr records"
    and ne: "files \<noteq> []"
  shows "observe_batch (post_files_to_atproto e files True idx user_text w) =
     (Inr (all_failed files),
      w_calls w @ replicate (length files) [''bsky'', ''--version''],
      w_notes w
        @ [''Starting AT Protocol posting for '' @ show_nat (length files) @ '' files...'']
        @ concat (map (\<lambda>f. [''Cannot post: '' @ installation_guide,
                             ''Failed to post '' @ path_name f @ '' to AT Protocol.'']) files)
        @ [''AT Protocol posting process completed: 0 succeeded, ''
           @ show_nat (length (all_failed files)) @ '' failed.''])"
proof -
  have zero: "show_nat 0 = ''0''" by code_simp
  have ld1: "load_atproto_posts_index
               (w_fs (notify True (''Starting AT Protocol posting for ''
                        @ show_nat (length files) @ '' files...'') w)) idx = Inr records"
    using ld by (simp add: notify_def)
  show ?thesis
    unfolding post_files_to_atproto_def Let_def cr observe_batch_def ld1 sum.case
      post_loop_not_found [OF nf tm ut]
    using ne
    by (simp add: count_succeeded_all_failed zero notify_def all_failed_def [symmetric])
qed

subsection \<open>The two claims about the batch drivers\<close>




text \<open>
  Claim C8. A missing command-line program does not abort a batch, and it is not
  reported once. With no program to be found and the batch not empty: the upload driver
  (not in test mode, with a wallet, an index that is absent or decoded and whose records
  can be copied, and an identifier in every file) starts the deploy command for every file of the batch, one
  after the other, returns \<^verbatim>\<open>None\<close> for every file and sends
  \<^verbatim>\<open>Failed to upload <name> to Arweave.\<close> once per file between its start message and
  its summary, which counts every file as failed; the posting driver (not in test mode,
  with credentials, a text to post and an index it can load) runs the version check for
  every file of the batch, returns \<^verbatim>\<open>None\<close> for every file and sends the installation
  guide and \<^verbatim>\<open>Failed to post <name> to AT Protocol.\<close> once per file.
\<close>

theorem missing_program_fails_every_file:
  assumes "\<forall>h c. run_process e h c = ExecNotFound msg" and "files \<noteq> []"
  shows
  "(\<not> arweave_test_mode e \<and> find_wallet_path e (w_fs w) = Inr (Some wp) \<and> wp \<noteq> []
      \<and> load_arweave_index_try (w_fs w) idx = Inr records \<and> copy_all records = Inr copies
      \<and> (\<forall>f \<in> set files. has_identifier e (w_fs w) f) \<longrightarrow>
    observe_batch (upload_files_to_arweave e files True idx w) =
     (Inr (all_failed files),
      w_calls w @ map (note_deploy_cmd e (w_fs w) wp) files,
      w_notes w
        @ [''Starting Arweave upload for '' @ show_nat (length files) @ '' files...'']
        @ map (\<lambda>f. ''Failed to upload '' @ path_name f @ '' to Arweave.'') files
        @ [''Arweave upload finished: 0 succeeded, '' @ show_int (int (length files))
           @ '' failed.'']))
   \<and> (\<not> atproto_test_mode e \<and> user_text \<noteq> []
      \<and> load_atproto_credentials e (w_fs w) = Some c
      \<and> load_atproto_posts_index (w_fs w) posts_idx = Inr posts \<longrightarrow>
    observe_batch (post_files_to_atproto e files True posts_idx user_text w) =
     (Inr (all_failed files),
      w_calls w @ replicate (length files) [''bsky'', ''--version''],
      w_notes w
        @ [''Starting AT Protocol posting for '' @ show_nat (length files) @ '' files...'']
        @ concat (map (\<lambda>f. [''Cannot post: '' @ installation_guide,
                             ''Failed to post '' @ path_name f @ '' to AT Protocol.'']) files)
        @ [''AT Protocol posting process completed: 0 succeeded, ''
           @ show_nat (length (all_failed files)) @ '' failed.'']))"
proof (intro conjI impI)
  assume a: "\<not> arweave_test_mode e \<and> find_wallet_path e (w_fs w) = Inr (Some wp) \<and> wp \<noteq> []
      \<and> load_arweave_index_try (w_fs w) idx = Inr records \<and> copy_all records = Inr copies
      \<and> (\<forall>f \<in> set files. has_identifier e (w_fs w) f)"
  show "observe_batch (upload_files_to_arweave e files True idx w) =
     (Inr (all_failed files),
      w_calls w @ map (note_deploy_cmd e (w_fs w) wp) files,
      w_notes w
        @ [''Starting Arweave upload for '' @ show_nat (length files) @ '' files...'']
        @ map (\<lambda>f. ''Failed to upload '' @ path_name f @ '' to Arweave.'') files
        @ [''Arweave upload finished: 0 succeeded, '' @ show_int (int (length files))
           @ '' failed.''])"
    by (rule upload_batch_not_found [OF assms(1) _ _ _ _ _ assms(2)]) (use a in blast)+
next
  assume b: "\<not> atproto_test_mode e \<and> user_text \<noteq> []
      \<and> load_atproto_credentials e (w_fs w) = Some c
      \<and> load_atproto_posts_index (w_fs w) posts_idx = Inr posts"
  show "observe_batch (post_files_to_atproto e files True posts_idx user_text w) =
     (Inr (all_failed files),
      w_calls w @ replicate (length files) [''bsky'', ''--version''],
      w_notes w
        @ [''Starting AT Protocol posting for '' @ show_nat (length files) @ '' files...'']
        @ concat (map (\<lambda>f. [''Cannot post: '' @ installation_guide,
                             ''Failed to post '' @ path_name f @ '' to AT Protocol.'']) files)
        @ [''AT Protocol posting process completed: 0 succeeded, ''
           @ show_nat (length (all_failed files)) @ '' failed.''])"
    by (rule post_batch_not_found [OF assms(1) _ _ _ _ assms(2)]) (use b in blast)+
qed

theorem missing_program_fails_every_file_witness:
  "find_wallet_path
     (scenario_env [''ARWEAVE_WALLET_PATH'' \<mapsto> ''wallet.json'', ''BSKY_USER'' \<mapsto> ''me'',
                    ''BSKY_PASSWORD'' \<mapsto> ''pw''] scenario_no_program scenario_parser)
     [[''wallet.json''] \<mapsto> File ''{}'', [''x.md''] \<mapsto> File ''u1'', [''y.md''] \<mapsto> File ''u2'',
      [''z.md''] \<mapsto> File ''u3'']
     = Inr (Some ''wallet.json'')
   \<and> list_all (has_identifier
         (scenario_env [''ARWEAVE_WALLET_PATH'' \<mapsto> ''wallet.json'', ''BSKY_USER'' \<mapsto> ''me'',
                        ''BSKY_PASSWORD'' \<mapsto> ''pw''] scenario_no_program scenario_parser)
         [[''wallet.json''] \<mapsto> File ''{}'', [''x.md''] \<mapsto> File ''u1'', [''y.md''] \<mapsto> File ''u2'',
          [''z.md''] \<mapsto> File ''u3''])
       [[''x.md''], [''y.md''], [''z.md'']]
   \<and> observe_batch (upload_files_to_arweave
         (scenario_env [''ARWEAVE_WALLET_PATH'' \<mapsto> ''wallet.json'', ''BSKY_USER'' \<mapsto> ''me'',
                        ''BSKY_PASSWORD'' \<mapsto> ''pw''] scenario_no_program scenario_parser)
         [[''x.md''], [''y.md''], [''z.md'']] True [''data'', ''archive.json'']
         (scenario_world
            [[''wallet.json''] \<mapsto> File ''{}'', [''x.md''] \<mapsto> File ''u1'',
             [''y.md''] \<mapsto> File ''u2'', [''z.md''] \<mapsto> File ''u3'']))
     = (Inr [([''x.md''], None), ([''y.md''], None), ([''z.md''], None)],
        [[''arkb'', ''deploy'', ''x.md'', ''--wallet'', ''wallet.json'',
          ''--tag'', ''Content-Type:text/markdown'', ''--tag'', ''App-Name:Quartz-Notes'',
          ''--tag'', ''UUID:u1'', ''--no-bundle'', ''--auto-confirm''],
         [''arkb'', ''deploy'', ''y.md'', ''--wallet'', ''wallet.json'',
          ''--tag'', ''Content-Type:text/markdown'', ''--tag'', ''App-Name:Quartz-Notes'',
          ''--tag'', ''UUID:u2'', ''--no-bundle'', ''--auto-confirm''],
         [''arkb'', ''deploy'', ''z.md'', ''--wallet'', ''wallet.json'',
          ''--tag'', ''Content-Type:text/markdown'', ''--tag'', ''App-Name:Quartz-Notes'',
          ''--tag'', ''UUID:u3'', ''--no-bundle'', ''--auto-confirm'']],
        [''Starting Arweave upload for 3 files...'',
         ''Failed to upload x.md to Arweave.'',
         ''Failed to upload y.md to Arweave.'',
         ''Failed to upload z.md to Arweave.'',
         ''Arweave upload finished: 0 succeeded, 3 failed.''])
   \<and> fst (snd (observe_batch (post_files_to_atproto
         (scenario_env [''ARWEAVE_WALLET_PATH'' \<mapsto> ''wallet.json'', ''BSKY_USER'' \<mapsto> ''me'',
                        ''BSKY_PASSWORD'' \<mapsto> ''pw''] scenario_no_program scenario_parser)
         [[''x.md''], [''y.md''], [''z.md'']] True [''data'', ''atproto_posts.json''] ''hello''
         (scenario_world
            [[''wallet.json''] \<mapsto> File ''{}'', [''x.md''] \<mapsto> File ''u1'',
             [''y.md''] \<mapsto> File ''u2'', [''z.md''] \<mapsto> File ''u3'']))))
     = [[''bsky'', ''--version''], [''bsky'', ''--version''], [''bsky'', ''--version'']]"
proof -
  define E where "E = scenario_env [''ARWEAVE_WALLET_PATH'' \<mapsto> ''wallet.json'',
                        ''BSKY_USER'' \<mapsto> ''me'', ''BSKY_PASSWORD'' \<mapsto> ''pw'']
                        scenario_no_program scenario_parser"
  define FS :: filesystem where "FS = [[''wallet.json''] \<mapsto> File ''{}'', [''x.md''] \<mapsto> File ''u1'',
                        [''y.md''] \<mapsto> File ''u2'', [''z.md''] \<mapsto> File ''u3'']"
  define W where "W = scenario_world FS"
  define files :: "path list" where "files = [[''x.md''], [''y.md''], [''z.md'']]"
  have fsW: "w_fs W = FS" "w_calls W = []" "w_notes W = []"
    by (simp_all add: W_def scenario_world_def)
  have nf: "\<forall>h c. run_process E h c = ExecNotFound ''[Errno 2] No such file or directory''"
    by (simp add: E_def scenario_env_def scenario_no_program_def)
  have ne: "files \<noteq> []" by (simp add: files_def)
  have h1: "find_wallet_path E FS = Inr (Some ''wallet.json'')"
    unfolding E_def FS_def by code_simp
  have h2: "list_all (has_identifier E FS) files"
    unfolding E_def FS_def files_def by code_simp
  have h3: "load_arweave_index_try FS [''data'', ''archive.json''] = Inr []"
    unfolding FS_def by code_simp
  have h4: "copy_all [] = Inr []" by simp
  have h5: "load_atproto_credentials E FS = Some (JStr ''me'', JStr ''me'', JStr ''pw'')"
    unfolding E_def FS_def by code_simp
  have h6: "load_atproto_posts_index FS [''data'', ''atproto_posts.json''] = Inr []"
    unfolding FS_def by code_simp
  have tm: "\<not> arweave_test_mode E" "\<not> atproto_test_mode E"
    by (simp_all add: E_def scenario_env_def)
  note T = missing_program_fails_every_file [OF nf ne,
             where w = W and wp = "''wallet.json''" and idx = "[''data'', ''archive.json'']"
               and records = "[]" and copies = "[]" and user_text = "''hello''"
               and c = "(JStr ''me'', JStr ''me'', JStr ''pw'')"
               and posts_idx = "[''data'', ''atproto_posts.json'']" and posts = "[]"]
  have up: "observe_batch (upload_files_to_arweave E files True [''data'', ''archive.json''] W) =
     (Inr (all_failed files),
      w_calls W @ map (note_deploy_cmd E (w_fs W) ''wallet.json'') files,
      w_notes W
        @ [''Starting Arweave upload for '' @ show_nat (length files) @ '' files...'']
        @ map (\<lambda>f. ''Failed to upload '' @ path_name f @ '' to Arweave.'') files
        @ [''Arweave upload finished: 0 succeeded, '' @ show_int (int (length files))
           @ '' failed.''])"
    using T tm h1 h2 h3 h4 by (simp add: fsW list_all_iff)
  have po: "observe_batch (post_files_to_atproto E files True [''data'', ''atproto_posts.json'']
              ''hello'' W) =
     (Inr (all_failed files),
      w_calls W @ replicate (length files) [''bsky'', ''--version''],
      w_notes W
        @ [''Starting AT Protocol posting for '' @ show_nat (length files) @ '' files...'']
        @ concat (map (\<lambda>f. [''Cannot post: '' @ installation_guide,
                             ''Failed to post '' @ path_name f @ '' to AT Protocol.'']) files)
        @ [''AT Protocol posting process completed: 0 succeeded, ''
           @ show_nat (length (all_failed files)) @ '' failed.''])"
    using T tm h5 h6 by (simp add: fsW)
  have ev: "(Inr (all_failed [[''x.md''], [''y.md''], [''z.md'']]) :: py_error + (path \<times> string option) list,
      map (note_deploy_cmd
            (scenario_env [''ARWEAVE_WALLET_PATH'' \<mapsto> ''wallet.json'', ''BSKY_USER'' \<mapsto> ''me'',
                           ''BSKY_PASSWORD'' \<mapsto> ''pw''] scenario_no_program scenario_parser)
            [[''wallet.json''] \<mapsto> File ''{}'', [''x.md''] \<mapsto> File ''u1'', [''y.md''] \<mapsto> File ''u2'',
             [''z.md''] \<mapsto> File ''u3''] ''wallet.json'')
        [[''x.md''], [''y.md''], [''z.md'']],
      [''Starting Arweave upload for '' @ show_nat (length [[''x.md''], [''y.md''], [''z.md'']])
         @ '' files...'']
        @ map (\<lambda>f. ''Failed to upload '' @ path_name f @ '' to Arweave.'')
            [[''x.md''], [''y.md''], [''z.md'']]
        @ [''Arweave upload finished: 0 succeeded, ''
           @ show_int (int (length [[''x.md''], [''y.md''], [''z.md'']])) @ '' failed.''])
     = (Inr [([''x.md''], None), ([''y.md''], None), ([''z.md''], None)],
        [[''arkb'', ''deploy'', ''x.md'', ''--wallet'', ''wallet.json'',
          ''--tag'', ''Content-Type:text/markdown'', ''--tag'', ''App-Name:Quartz-Notes'',
          ''--tag'', ''UUID:u1'', ''--no-bundle'', ''--auto-confirm''],
         [''arkb'', ''deploy'', ''y.md'', ''--wallet'', ''wallet.json'',
          ''--tag'', ''Content-Type:text/markdown'', ''--tag'', ''App-Name:Quartz-Notes'',
          ''--tag'', ''UUID:u2'', ''--no-bundle'', ''--auto-confirm''],
         [''arkb'', ''deploy'', ''z.md'', ''--wallet'', ''wallet.json'',
          ''--tag'', ''Content-Type:text/markdown'', ''--tag'', ''App-Name:Quartz-Notes'',
          ''--tag'', ''UUID:u3'', ''--no-bundle'', ''--auto-confirm'']],
        [''Starting Arweave upload for 3 files...'',
         ''Failed to upload x.md to Arweave.'',
         ''Failed to upload y.md to Arweave.'',
         ''Failed to upload z.md to Arweave.'',
         ''Arweave upload finished: 0 succeeded, 3 failed.''])"
    by code_simp
  have c3: "observe_batch (upload_files_to_arweave E files True [''data'', ''archive.json''] W)
     = (Inr [([''x.md''], None), ([''y.md''], None), ([''z.md''], None)],
        [[''arkb'', ''deploy'', ''x.md'', ''--wallet'', ''wallet.json'',
          ''--tag'', ''Content-Type:text/markdown'', ''--tag'', ''App-Name:Quartz-Notes'',
          ''--tag'', ''UUID:u1'', ''--no-bundle'', ''--auto-confirm''],
         [''arkb'', ''deploy'', ''y.md'', ''--wallet'', ''wallet.json'',
          ''--tag'', ''Content-Type:text/markdown'', ''--tag'', ''App-Name:Quartz-Notes'',
          ''--tag'', ''UUID:u2'', ''--no-bundle'', ''--auto-confirm''],
         [''arkb'', ''deploy'', ''z.md'', ''--wallet'', ''wallet.json'',
          ''--tag'', ''Content-Type:text/markdown'', ''--tag'', ''App-Name:Quartz-Notes'',
          ''--tag'', ''UUID:u3'', ''--no-bundle'', ''--auto-confirm'']],
        [''Starting Arweave upload for 3 files...'',
         ''Failed to upload x.md to Arweave.'',
         ''Failed to upload y.md to Arweave.'',
         ''Failed to upload z.md to Arweave.'',
         ''Arweave upload finished: 0 succeeded, 3 failed.''])"
    unfolding up fsW append_Nil
    unfolding E_def FS_def files_def by (rule ev)
  have c4: "fst (snd (observe_batch (post_files_to_atproto E files True
              [''data'', ''atproto_posts.json''] ''hello'' W)))
     = [[''bsky'', ''--version''], [''bsky'', ''--version''], [''bsky'', ''--version'']]"
    unfolding po by (simp add: fsW files_def)
  show ?thesis
    using h1 h2 c3 c4
    unfolding E_def FS_def W_def files_def by (intro conjI)
qed

text \<open>With no program to be found, a batch of two files is not aborted after the first:
  the upload driver starts the deploy command for \<open>b.md\<close> after the one for \<open>a.md\<close> has
  failed and reports a failure for each, and the posting driver runs its version check
  and sends the installation guide once per file.\<close>

theorem missing_program_batch_goes_on_counterexample:
  "observe_batch (upload_files_to_arweave
         (scenario_env [''ARWEAVE_WALLET_PATH'' \<mapsto> ''wallet.json''] scenario_no_program
            scenario_parser)
         [[''a.md''], [''b.md'']] True [''data'', ''archive.json'']
         (scenario_world [[''wallet.json''] \<mapsto> File ''{}'', [''a.md''] \<mapsto> File ''u1'',
                          [''b.md''] \<mapsto> File ''u2'']))
     = (Inr [([''a.md''], None), ([''b.md''], None)],
        [[''arkb'', ''deploy'', ''a.md'', ''--wallet'', ''wallet.json'',
          ''--tag'', ''Content-Type:text/markdown'', ''--tag'', ''App-Name:Quartz-Notes'',
          ''--tag'', ''UUID:u1'', ''--no-bundle'', ''--auto-confirm''],
         [''arkb'', ''deploy'', ''b.md'', ''--wallet'', ''wallet.json'',
          ''--tag'', ''Content-Type:text/markdown'', ''--tag'', ''App-Name:Quartz-Notes'',
          ''--tag'', ''UUID:u2'', ''--no-bundle'', ''--auto-confirm'']],
        [''Starting Arweave upload for 2 files...'',
         ''Failed to upload a.md to Arweave.'',
         ''Failed to upload b.md to Arweave.'',
         ''Arweave upload finished: 0 succeeded, 2 failed.''])
   \<and> observe_batch (post_files_to_atproto
         (scenario_env [''BSKY_USER'' \<mapsto> ''me'', ''BSKY_PASSWORD'' \<mapsto> ''pw'']
            scenario_no_program scenario_parser)
         [[''a.md''], [''b.md'']] True [''data'', ''atproto_posts.json''] ''hello''
         (scenario_world [[''a.md''] \<mapsto> File ''u1'', [''b.md''] \<mapsto> File ''u2'']))
     = (Inr [([''a.md''], None), ([''b.md''], None)],
        [[''bsky'', ''--version''], [''bsky'', ''--version'']],
        [''Starting AT Protocol posting for 2 files...'',
         ''Cannot post: '' @ installation_guide,
         ''Failed to post a.md to AT Protocol.'',
         ''Cannot post: '' @ installation_guide,
         ''Failed to post b.md to AT Protocol.'',
         ''AT Protocol posting process completed: 0 succeeded, 2 failed.''])"
  by code_simp

end
